theory Spec2Isabelle
  imports Main
begin

section \<open>Text\<close>

text \<open>
  A Python \<^verbatim>\<open>str\<close> is modelled as a \<^typ>\<open>string\<close>; a character of the model stands
  for a code point below 256. \<open>is_space\<close> is \<^verbatim>\<open>str.isspace\<close> on that range, which is
  what \<^verbatim>\<open>str.strip()\<close> removes at both ends.
\<close>

definition is_space :: "char \<Rightarrow> bool" where
  "is_space c =
     (let n = (of_char c :: nat)
      in (9 \<le> n \<and> n \<le> 13) \<or> (28 \<le> n \<and> n \<le> 32) \<or> n = 133 \<or> n = 160)"

definition lstrip :: "string \<Rightarrow> string" where
  "lstrip s = dropWhile is_space s"

definition rstrip :: "string \<Rightarrow> string" where
  "rstrip s = rev (dropWhile is_space (rev s))"

definition strip :: "string \<Rightarrow> string" where
  "strip s = rstrip (lstrip s)"

definition startswith :: "string \<Rightarrow> string \<Rightarrow> bool" where
  "startswith s p = (take (length p) s = p)"

definition endswith :: "string \<Rightarrow> string \<Rightarrow> bool" where
  "endswith s p = (length p \<le> length s \<and> drop (length s - length p) s = p)"

text \<open>The character class \<^verbatim>\<open>[a-zA-Z]\<close> of the regular expression.\<close>

definition is_letter :: "char \<Rightarrow> bool" where
  "is_letter c =
     (let n = (of_char c :: nat)
      in (97 \<le> n \<and> n \<le> 122) \<or> (65 \<le> n \<and> n \<le> 90))"

section \<open>Output normalizer\<close>

text \<open>
  \<^verbatim>\<open>re.sub(r'^```[a-zA-Z]*\n?', '', output)\<close>: the pattern is anchored at the start of
  the text (no MULTILINE flag), so it matches at most once, at position 0: three
  backticks, the longest run of letters, and one newline when it follows.
\<close>

definition sub_fence :: "string \<Rightarrow> string" where
  "sub_fence s =
     (if startswith s ''```'' then
        (let r = dropWhile is_letter (drop 3 s)
         in if startswith r ''\<newline>'' then drop 1 r else r)
      else s)"

definition clean_json_output :: "string \<Rightarrow> string" where
  "clean_json_output output =
     (let output1 = strip output;
          output2 =
            (if startswith output1 ''```'' then
               (let output3 = sub_fence output1
                in if endswith output3 ''```''
                   then take (length output3 - 3) output3
                   else output3)
             else output1)
      in strip output2)"

section \<open>JSON values and the Python operations on them\<close>

text \<open>
  The values \<^verbatim>\<open>json.loads\<close> produces, which are the values the program passes around:
  \<^verbatim>\<open>None\<close>, booleans, integers, floats, strings, lists and dictionaries with string
  keys (an association list in insertion order, its keys distinct). The program does no
  arithmetic on a float: it only prints it, so a float is carried by the text that
  \<^verbatim>\<open>repr\<close> gives for it.
\<close>

datatype json =
    JNull
  | JBool bool
  | JInt int
  | JFloat string
  | JStr string
  | JArr "json list"
  | JObj "(string \<times> json) list"

datatype py_error = AttributeError | TypeError | OSError

definition and_then :: "py_error + 'a \<Rightarrow> ('a \<Rightarrow> py_error + 'b) \<Rightarrow> py_error + 'b" where
  "and_then m f = (case m of Inl e \<Rightarrow> Inl e | Inr x \<Rightarrow> f x)"

text \<open>
  \<^verbatim>\<open>d.get(k, default)\<close>: only a dictionary has the method; on any other value the
  attribute lookup raises AttributeError.
\<close>

definition py_get :: "json \<Rightarrow> string \<Rightarrow> json \<Rightarrow> py_error + json" where
  "py_get d k dflt =
     (case d of
        JObj kvs \<Rightarrow> Inr (case map_of kvs k of Some v \<Rightarrow> v | None \<Rightarrow> dflt)
      | _ \<Rightarrow> Inl AttributeError)"

text \<open>
  \<^verbatim>\<open>for x in v\<close>: a list gives its elements, a dictionary its keys, a string its
  characters; \<^verbatim>\<open>None\<close>, a boolean or a number is not iterable (TypeError).
\<close>

definition py_iter :: "json \<Rightarrow> py_error + json list" where
  "py_iter v =
     (case v of
        JArr xs \<Rightarrow> Inr xs
      | JObj kvs \<Rightarrow> Inr (map (\<lambda>kv. JStr (fst kv)) kvs)
      | JStr s \<Rightarrow> Inr (map (\<lambda>c. JStr [c]) s)
      | _ \<Rightarrow> Inl TypeError)"

text \<open>The truth value Python gives a value in \<^verbatim>\<open>x if v else y\<close>.\<close>

definition py_truthy :: "json \<Rightarrow> bool" where
  "py_truthy v =
     (case v of
        JNull \<Rightarrow> False
      | JBool b \<Rightarrow> b
      | JInt i \<Rightarrow> i \<noteq> 0
      | JFloat r \<Rightarrow> r \<noteq> ''0.0'' \<and> r \<noteq> ''-0.0''
      | JStr s \<Rightarrow> s \<noteq> []
      | JArr xs \<Rightarrow> xs \<noteq> []
      | JObj kvs \<Rightarrow> kvs \<noteq> [])"

text \<open>\<^verbatim>\<open>sep.join(xs)\<close>.\<close>

fun py_join :: "string \<Rightarrow> string list \<Rightarrow> string" where
  "py_join sep [] = []"
| "py_join sep [x] = x"
| "py_join sep (x # y # ys) = x @ sep @ py_join sep (y # ys)"

text \<open>
  \<^verbatim>\<open>str(v)\<close>, which is what an f-string inserts for \<^verbatim>\<open>{v}\<close>: a string is inserted
  as it is, every other value by its \<^verbatim>\<open>repr\<close>.
\<close>

definition digit_char :: "nat \<Rightarrow> char" where
  "digit_char d = char_of (48 + d)"

fun show_nat :: "nat \<Rightarrow> string" where
  "show_nat n = (if n < 10 then [digit_char n] else show_nat (n div 10) @ [digit_char (n mod 10)])"

definition show_int :: "int \<Rightarrow> string" where
  "show_int i = (if i < 0 then ''-'' @ show_nat (nat (- i)) else show_nat (nat i))"

definition hex_char :: "nat \<Rightarrow> char" where
  "hex_char d = (if d < 10 then char_of (48 + d) else char_of (87 + d))"

definition repr_char :: "char \<Rightarrow> char \<Rightarrow> string" where
  "repr_char q c =
     (let n = (of_char c :: nat)
      in if c = q \<or> n = 92 then [CHR 0x5C, c]
         else if n = 9 then [CHR 0x5C, CHR ''t'']
         else if n = 10 then [CHR 0x5C, CHR ''n'']
         else if n = 13 then [CHR 0x5C, CHR ''r'']
         else if n < 32 \<or> n = 127 \<or> (128 \<le> n \<and> n \<le> 160) \<or> n = 173
           then [CHR 0x5C, CHR ''x'', hex_char (n div 16), hex_char (n mod 16)]
         else [c])"

definition repr_str :: "string \<Rightarrow> string" where
  "repr_str s =
     (let q = (if CHR 0x27 \<in> set s \<and> CHR 0x22 \<notin> set s then CHR 0x22 else CHR 0x27)
      in [q] @ concat (map (repr_char q) s) @ [q])"

fun py_repr :: "json \<Rightarrow> string" where
  "py_repr JNull = ''None''"
| "py_repr (JBool b) = (if b then ''True'' else ''False'')"
| "py_repr (JInt i) = show_int i"
| "py_repr (JFloat r) = r"
| "py_repr (JStr s) = repr_str s"
| "py_repr (JArr xs) = ''['' @ py_join '', '' (map py_repr xs) @ '']''"
| "py_repr (JObj kvs) =
     ''{'' @ py_join '', '' (map (\<lambda>kv. repr_str (fst kv) @ '': '' @ py_repr (snd kv)) kvs) @ ''}''"

definition py_str :: "json \<Rightarrow> string" where
  "py_str v = (case v of JStr s \<Rightarrow> s | _ \<Rightarrow> py_repr v)"

section \<open>The environment of a run\<close>

text \<open>
  What the program calls and this repository does not hold: the hosted model and the
  \<^verbatim>\<open>json\<close> module. They are parameters of the model.
  \<^item> \<open>generate_content n prompt\<close> is the outcome of the \<open>n\<close>-th request of the run
    (counted from 0) when it carries \<open>prompt\<close>: the response text, or the exception the
    client library raises. The temperature and the token limit are the defaults of
    \<^verbatim>\<open>GeminiAPI.generate\<close> at every call site, so they are part of this function.
  \<^item> \<open>json_loads s\<close> is \<^verbatim>\<open>json.loads(s)\<close>, \<open>None\<close> when it raises.
  \<^item> \<open>json_dumps v\<close> is \<^verbatim>\<open>json.dumps(v, indent=2)\<close>.
  The state of a run is the list of the prompts sent so far, oldest first. What the
  program prints to the console is not modelled.
\<close>

datatype api_error = NetworkError | AuthError | QuotaError | BlockedResponse

record env =
  generate_content :: "nat \<Rightarrow> string \<Rightarrow> api_error + string"
  json_loads :: "string \<Rightarrow> json option"
  json_dumps :: "json \<Rightarrow> string"

type_synonym sent = "string list"

definition generate :: "env \<Rightarrow> string \<Rightarrow> sent \<Rightarrow> string \<times> sent" where
  "generate E prompt st =
     (case generate_content E (length st) prompt of
        Inr text \<Rightarrow> (strip text, st @ [prompt])
      | Inl e \<Rightarrow> ([], st @ [prompt]))"

section \<open>Prompt templates\<close>

text \<open>
  Each f-string of the source, one definition per occurrence and one line of the model per
  line of the template. \<^verbatim>\<open>{{\<close> and \<^verbatim>\<open>}}\<close> of an f-string are the characters
  \<^verbatim>\<open>{\<close> and \<^verbatim>\<open>}\<close>.
\<close>

definition categories :: "string list" where
  "categories =
     [''College student'',
      ''Working professional (tech)'',
      ''Working professional (non-tech)'',
      ''Marketing/Sales background'',
      ''Non-tech aiming to enter tech'',
      ''Senior professional (10+ years experience)'']"

definition extract_user_data_prompt :: "string \<Rightarrow> string \<Rightarrow> string \<Rightarrow> string" where
  \<open>extract_user_data_prompt resume_text interview_summary_text goals_text =
     ''\<newline>'' @
     ''You are an expert career coach and GenAI learning consultant. Given the following user inputs:\<newline>'' @
     ''\<newline>'' @
     ''Resume:\<newline>'' @
     resume_text @ ''\<newline>'' @
     ''\<newline>'' @
     ''Interview Summary:\<newline>'' @
     interview_summary_text @ ''\<newline>'' @
     ''\<newline>'' @
     ''Personal Goals:\<newline>'' @
     goals_text @ ''\<newline>'' @
     ''\<newline>'' @
     ''Extract the following as a JSON object:\<newline>'' @
     ''- domain: User's professional domain/field\<newline>'' @
     ''- skills: { 'technical': [list with proficiency], 'soft': [list] }\<newline>'' @
     ''- goals: List of specific goals\<newline>'' @
     ''- learning_preference: One of ['project-based', 'video-based', 'reading', 'mixed']\<newline>'' @
     ''- weekly_availability_hours: Integer estimate\<newline>'' @
     ''\<newline>'' @
     ''Output ONLY the JSON object. Do not include any explanation.\<newline>''\<close>

definition extract_user_data_trace_prompt :: "string \<Rightarrow> string \<Rightarrow> string \<Rightarrow> string" where
  \<open>extract_user_data_trace_prompt resume_text interview_summary_text goals_text =
     ''\<newline>'' @
     ''You are an expert career coach and GenAI learning consultant. Given the following user inputs:\<newline>'' @
     ''\<newline>'' @
     ''Resume:\<newline>'' @
     resume_text @ ''\<newline>'' @
     ''\<newline>'' @
     ''Interview Summary:\<newline>'' @
     interview_summary_text @ ''\<newline>'' @
     ''\<newline>'' @
     ''Personal Goals:\<newline>'' @
     goals_text @ ''\<newline>'' @
     ''\<newline>'' @
     ''Extract the following as a JSON object:\<newline>'' @
     ''- domain: User's professional domain/field\<newline>'' @
     ''- skills: { 'technical': [list with proficiency], 'soft': [list] }\<newline>'' @
     ''- goals: List of specific goals\<newline>'' @
     ''- learning_preference: One of ['project-based', 'video-based', 'reading', 'mixed']\<newline>'' @
     ''- weekly_availability_hours: Integer estimate\<newline>'' @
     ''\<newline>'' @
     ''Output ONLY the JSON object. Do not include any explanation.\<newline>''\<close>

definition classify_persona_prompt :: "env \<Rightarrow> json \<Rightarrow> string" where
  \<open>classify_persona_prompt E user_data =
     ''\<newline>'' @
     ''Given the following user profile data (JSON):\<newline>'' @
     json_dumps E user_data @ ''\<newline>'' @
     ''\<newline>'' @
     ''Classify the user into ONE of these categories:\<newline>'' @
     ''- '' @ py_join '', '' categories @ ''\<newline>'' @
     ''\<newline>'' @
     ''Respond as a JSON object:\<newline>'' @
     ''{\<newline>'' @
     ''  "persona": <category>,\<newline>'' @
     ''  "justification": <brief justification for your choice>\<newline>'' @
     ''}\<newline>''\<close>

definition classify_persona_trace_prompt :: "env \<Rightarrow> json \<Rightarrow> string" where
  \<open>classify_persona_trace_prompt E user_data =
     ''\<newline>'' @
     ''Given the following user profile data (JSON):\<newline>'' @
     json_dumps E user_data @ ''\<newline>'' @
     ''\<newline>'' @
     ''Classify the user into ONE of these categories:\<newline>'' @
     ''- '' @ py_join '', '' categories @ ''\<newline>'' @
     ''\<newline>'' @
     ''Respond as a JSON object:\<newline>'' @
     ''{\<newline>'' @
     ''  "persona": <category>,\<newline>'' @
     ''  "justification": <brief justification for your choice>\<newline>'' @
     ''}\<newline>''\<close>

definition plan_roadmap_think_prompt :: "env \<Rightarrow> json \<Rightarrow> json \<Rightarrow> string" where
  \<open>plan_roadmap_think_prompt E user_data persona =
     ''\<newline>'' @
     ''You are an expert GenAI curriculum designer. Given the user's profile and persona below, identify the most relevant GenAI topics/use-cases for them. For each topic, include a brief justification of why it is relevant for this user.\<newline>'' @
     ''\<newline>'' @
     ''User Profile:\<newline>'' @
     json_dumps E user_data @ ''\<newline>'' @
     ''Persona: '' @ py_str persona @ ''\<newline>'' @
     ''\<newline>'' @
     ''Respond as a JSON array of objects:\<newline>'' @
     ''[\<newline>'' @
     ''  {"topic": <topic>, "justification": <why this topic is relevant>}, ...\<newline>'' @
     '']\<newline>''\<close>

definition plan_roadmap_plan_prompt :: "env \<Rightarrow> json \<Rightarrow> string" where
  \<open>plan_roadmap_plan_prompt E topics =
     ''\<newline>'' @
     ''Given the user's profile and the following topics (with justifications):\<newline>'' @
     json_dumps E topics @ ''\<newline>'' @
     ''\<newline>'' @
     ''Propose a suitable roadmap duration (choose one: 21, 30, or 45 days) and structure the roadmap into levels (e.g., Foundations, Hands-on, Application). Assign topics to levels. Justify your choices based on the user's background, goals, and weekly availability.\<newline>'' @
     ''\<newline>'' @
     ''Respond as a JSON object:\<newline>'' @
     ''{\<newline>'' @
     ''  "duration_days": <21|30|45>,\<newline>'' @
     ''  "levels": [\<newline>'' @
     ''    {"level": <int>, "title": <level title>, "topics": [<topic>, ...], "justification": <why this structure/leveling>}, ...\<newline>'' @
     ''  ],\<newline>'' @
     ''  "structure_justification": <overall justification>\<newline>'' @
     ''}\<newline>''\<close>

definition plan_roadmap_activities_prompt :: "env \<Rightarrow> json \<Rightarrow> json \<Rightarrow> json \<Rightarrow> string" where
  \<open>plan_roadmap_activities_prompt E user_data persona structure =
     ''\<newline>'' @
     ''Given the roadmap structure below, the user's learning preference, and their weekly availability, detail the specific learning activities for each topic. Estimate the hours required per activity so that the total fits within the duration and weekly hours. For each activity, provide a justification.\<newline>'' @
     ''\<newline>'' @
     ''User Profile:\<newline>'' @
     json_dumps E user_data @ ''\<newline>'' @
     ''Persona: '' @ py_str persona @ ''\<newline>'' @
     ''Roadmap Structure:\<newline>'' @
     json_dumps E structure @ ''\<newline>'' @
     ''\<newline>'' @
     ''Respond as a JSON object in this format:\<newline>'' @
     ''{\<newline>'' @
     ''  "levels": [\<newline>'' @
     ''    {\<newline>'' @
     ''      "level": <int>,\<newline>'' @
     ''      "title": <level title>,\<newline>'' @
     ''      "estimated_hours": <int>,\<newline>'' @
     ''      "topics": [\<newline>'' @
     ''        {\<newline>'' @
     ''          "topic": <topic>,\<newline>'' @
     ''          "activity": <activity description>,\<newline>'' @
     ''          "estimated_hours": <int>,\<newline>'' @
     ''          "justification": <why this activity/topic for this user>\<newline>'' @
     ''        }, ...\<newline>'' @
     ''      ]\<newline>'' @
     ''    }, ...\<newline>'' @
     ''  ],\<newline>'' @
     ''  "total_estimated_hours": <int>\<newline>'' @
     ''}\<newline>''\<close>

definition identify_topics_prompt :: "env \<Rightarrow> json \<Rightarrow> string" where
  \<open>identify_topics_prompt E user_data =
     ''\<newline>'' @
     ''You are an expert GenAI curriculum designer. Given the user's profile below, identify the most relevant GenAI topics/use-cases for them. For each topic, include a brief justification of why it is relevant for this user.\<newline>'' @
     ''\<newline>'' @
     ''User Profile:\<newline>'' @
     json_dumps E user_data @ ''\<newline>'' @
     ''\<newline>'' @
     ''Respond as a JSON array of objects:\<newline>'' @
     ''[\<newline>'' @
     ''  {"topic": <topic>, "justification": <why this topic is relevant>}, ...\<newline>'' @
     '']\<newline>''\<close>

definition identify_topics_trace_prompt :: "env \<Rightarrow> json \<Rightarrow> string" where
  \<open>identify_topics_trace_prompt E user_data =
     ''\<newline>'' @
     ''You are an expert GenAI curriculum designer. Given the user's profile below, identify the most relevant GenAI topics/use-cases for them. For each topic, include a brief justification of why it is relevant for this user.\<newline>'' @
     ''\<newline>'' @
     ''User Profile:\<newline>'' @
     json_dumps E user_data @ ''\<newline>'' @
     ''\<newline>'' @
     ''Respond as a JSON array of objects:\<newline>'' @
     ''[\<newline>'' @
     ''  {"topic": <topic>, "justification": <why this topic is relevant>}, ...\<newline>'' @
     '']\<newline>''\<close>

definition plan_roadmap_trace_think_prompt :: "env \<Rightarrow> json \<Rightarrow> json \<Rightarrow> string" where
  \<open>plan_roadmap_trace_think_prompt E user_data persona =
     ''\<newline>'' @
     ''You are an expert GenAI curriculum designer. Given the user's profile and persona below, identify the most relevant GenAI topics/use-cases for them. For each topic, include a brief justification of why it is relevant for this user.\<newline>'' @
     ''\<newline>'' @
     ''User Profile:\<newline>'' @
     json_dumps E user_data @ ''\<newline>'' @
     ''Persona: '' @ py_str persona @ ''\<newline>'' @
     ''\<newline>'' @
     ''Respond as a JSON array of objects:\<newline>'' @
     ''[\<newline>'' @
     ''  {"topic": <topic>, "justification": <why this topic is relevant>}, ...\<newline>'' @
     '']\<newline>''\<close>

definition plan_roadmap_trace_think_prompt_given :: "env \<Rightarrow> json \<Rightarrow> json \<Rightarrow> string" where
  \<open>plan_roadmap_trace_think_prompt_given E user_data persona =
     ''\<newline>'' @
     ''You are an expert GenAI curriculum designer. Given the user's profile and persona below, identify the most relevant GenAI topics/use-cases for them. For each topic, include a brief justification of why it is relevant for this user.\<newline>'' @
     ''\<newline>'' @
     ''User Profile:\<newline>'' @
     json_dumps E user_data @ ''\<newline>'' @
     ''Persona: '' @ py_str persona @ ''\<newline>'' @
     ''\<newline>'' @
     ''Respond as a JSON array of objects:\<newline>'' @
     ''[\<newline>'' @
     ''  {"topic": <topic>, "justification": <why this topic is relevant>}, ...\<newline>'' @
     '']\<newline>''\<close>

definition plan_roadmap_trace_plan_prompt :: "env \<Rightarrow> json \<Rightarrow> string" where
  \<open>plan_roadmap_trace_plan_prompt E topics =
     ''\<newline>'' @
     ''Given the user's profile and the following topics (with justifications):\<newline>'' @
     json_dumps E topics @ ''\<newline>'' @
     ''\<newline>'' @
     ''Propose a suitable roadmap duration (choose one: 21, 30, or 45 days) and structure the roadmap into levels (e.g., Foundations, Hands-on, Application). Assign topics to levels. Justify your choices based on the user's background, goals, and weekly availability.\<newline>'' @
     ''\<newline>'' @
     ''Respond as a JSON object:\<newline>'' @
     ''{\<newline>'' @
     ''  "duration_days": <21|30|45>,\<newline>'' @
     ''  "levels": [\<newline>'' @
     ''    {"level": <int>, "title": <level title>, "topics": [<topic>, ...], "justification": <why this structure/leveling>}, ...\<newline>'' @
     ''  ],\<newline>'' @
     ''  "structure_justification": <overall justification>\<newline>'' @
     ''}\<newline>''\<close>

definition plan_roadmap_trace_activities_prompt :: "env \<Rightarrow> json \<Rightarrow> json \<Rightarrow> json \<Rightarrow> string" where
  \<open>plan_roadmap_trace_activities_prompt E user_data persona structure =
     ''\<newline>'' @
     ''Given the roadmap structure below, the user's learning preference, and their weekly availability, detail the specific learning activities for each topic. Estimate the hours required per activity so that the total fits within the duration and weekly hours. For each activity, provide a justification.\<newline>'' @
     ''\<newline>'' @
     ''User Profile:\<newline>'' @
     json_dumps E user_data @ ''\<newline>'' @
     ''Persona: '' @ py_str persona @ ''\<newline>'' @
     ''Roadmap Structure:\<newline>'' @
     json_dumps E structure @ ''\<newline>'' @
     ''\<newline>'' @
     ''Respond as a JSON object in this format:\<newline>'' @
     ''{\<newline>'' @
     ''  "levels": [\<newline>'' @
     ''    {\<newline>'' @
     ''      "level": <int>,\<newline>'' @
     ''      "title": <level title>,\<newline>'' @
     ''      "estimated_hours": <int>,\<newline>'' @
     ''      "topics": [\<newline>'' @
     ''        {\<newline>'' @
     ''          "topic": <topic>,\<newline>'' @
     ''          "activity": <activity description>,\<newline>'' @
     ''          "estimated_hours": <int>,\<newline>'' @
     ''          "justification": <why this activity/topic for this user>\<newline>'' @
     ''        }, ...\<newline>'' @
     ''      ]\<newline>'' @
     ''    }, ...\<newline>'' @
     ''  ],\<newline>'' @
     ''  "total_estimated_hours": <int>\<newline>'' @
     ''}\<newline>''\<close>

section \<open>User understanding\<close>

definition extract_user_data ::
  "env \<Rightarrow> string \<Rightarrow> string \<Rightarrow> string \<Rightarrow> sent \<Rightarrow> json \<times> sent" where
  "extract_user_data E resume_text interview_summary_text goals_text st =
     (let prompt = extract_user_data_prompt resume_text interview_summary_text goals_text;
          (output, st1) = generate E prompt st
      in case json_loads E (clean_json_output output) of
           Some user_data \<Rightarrow> (user_data, st1)
         | None \<Rightarrow> (JObj [], st1))"

definition extract_user_data_trace ::
  "env \<Rightarrow> string \<Rightarrow> string \<Rightarrow> string \<Rightarrow> sent \<Rightarrow> (json \<times> string \<times> string) \<times> sent" where
  "extract_user_data_trace E resume_text interview_summary_text goals_text st =
     (let prompt = extract_user_data_trace_prompt resume_text interview_summary_text goals_text;
          (output, st1) = generate E prompt st;
          user_data =
            (case json_loads E (clean_json_output output) of
               Some v \<Rightarrow> v
             | None \<Rightarrow> JObj [])
      in ((user_data, prompt, output), st1))"

section \<open>Persona classification\<close>

text \<open>
  Inside the \<^verbatim>\<open>try\<close> block the parse can fail and, when the parsed value is not a
  dictionary, so can \<^verbatim>\<open>result.get\<close>; the \<^verbatim>\<open>except Exception\<close> clause answers both
  with the pair of empty strings.
\<close>

definition classify_persona :: "env \<Rightarrow> json \<Rightarrow> sent \<Rightarrow> (json \<times> json) \<times> sent" where
  "classify_persona E user_data st =
     (let prompt = classify_persona_prompt E user_data;
          (output, st1) = generate E prompt st
      in case json_loads E (clean_json_output output) of
           Some result \<Rightarrow>
             (case and_then (py_get result ''persona'' (JStr []))
                     (\<lambda>p. and_then (py_get result ''justification'' (JStr []))
                       (\<lambda>j. Inr (p, j))) of
                Inr pj \<Rightarrow> (pj, st1)
              | Inl e \<Rightarrow> ((JStr [], JStr []), st1))
         | None \<Rightarrow> ((JStr [], JStr []), st1))"

definition classify_persona_trace ::
  "env \<Rightarrow> json \<Rightarrow> sent \<Rightarrow> (json \<times> json \<times> string \<times> string) \<times> sent" where
  "classify_persona_trace E user_data st =
     (let prompt = classify_persona_trace_prompt E user_data;
          (output, st1) = generate E prompt st;
          (persona, justification) =
            (case json_loads E (clean_json_output output) of
               Some result \<Rightarrow>
                 (case py_get result ''persona'' (JStr []) of
                    Inr p \<Rightarrow>
                      (case py_get result ''justification'' (JStr []) of
                         Inr j \<Rightarrow> (p, j)
                       | Inl e \<Rightarrow> (JStr [], JStr []))
                  | Inl e \<Rightarrow> (JStr [], JStr []))
             | None \<Rightarrow> (JStr [], JStr []))
      in ((persona, justification, prompt, output), st1))"

section \<open>Roadmap planning\<close>

text \<open>
  The three model calls of \<^verbatim>\<open>plan_roadmap\<close> (topics, structure, activities) are each
  followed by their own \<^verbatim>\<open>try\<close> block. The final dictionary is built outside any
  \<^verbatim>\<open>try\<close>, so a \<^verbatim>\<open>.get\<close> on a value that is not a dictionary raises to the caller:
  the result is a sum.
\<close>

definition plan_roadmap :: "env \<Rightarrow> json \<Rightarrow> json \<Rightarrow> sent \<Rightarrow> (py_error + json) \<times> sent" where
  "plan_roadmap E user_data persona st =
     (let think_prompt = plan_roadmap_think_prompt E user_data persona;
          (topics_output, st1) = generate E think_prompt st;
          topics =
            (case json_loads E (clean_json_output topics_output) of
               Some v \<Rightarrow> v
             | None \<Rightarrow> JArr []);
          plan_prompt = plan_roadmap_plan_prompt E topics;
          (structure_output, st2) = generate E plan_prompt st1;
          structure =
            (case json_loads E (clean_json_output structure_output) of
               Some v \<Rightarrow> v
             | None \<Rightarrow> JObj []);
          activities_prompt = plan_roadmap_activities_prompt E user_data persona structure;
          (activities_output, st3) = generate E activities_prompt st2;
          activities =
            (case json_loads E (clean_json_output activities_output) of
               Some v \<Rightarrow> v
             | None \<Rightarrow> JObj []);
          roadmap_data =
            and_then (py_get user_data ''domain'' (JStr [])) (\<lambda>domain.
            and_then (py_get user_data ''goals'' (JArr [])) (\<lambda>goals.
            and_then (py_get user_data ''weekly_availability_hours'' (JInt 0)) (\<lambda>hours.
            and_then (py_get structure ''duration_days'' (JInt 30)) (\<lambda>duration_days.
            and_then (py_get activities ''total_estimated_hours'' (JInt 0)) (\<lambda>total.
            and_then (py_get activities ''levels'' (JArr [])) (\<lambda>levels.
              Inr (JObj
                [(''user_profile_summary'', JObj
                    [(''persona'', persona),
                     (''domain'', domain),
                     (''goals'', goals),
                     (''weekly_availability_hours'', hours)]),
                 (''roadmap'', JObj
                    [(''title'', JStr (''Personalized GenAI Roadmap for '' @ py_str persona)),
                     (''duration_days'', duration_days),
                     (''total_estimated_hours'', total),
                     (''levels'', levels)])])))))))
      in (roadmap_data, st3))"

definition identify_topics :: "env \<Rightarrow> json \<Rightarrow> sent \<Rightarrow> json \<times> sent" where
  "identify_topics E user_data st =
     (let prompt = identify_topics_prompt E user_data;
          (output, st1) = generate E prompt st;
          topics =
            (case json_loads E (clean_json_output output) of
               Some v \<Rightarrow> v
             | None \<Rightarrow> JArr [])
      in (topics, st1))"

definition identify_topics_trace ::
  "env \<Rightarrow> json \<Rightarrow> sent \<Rightarrow> (json \<times> string \<times> string) \<times> sent" where
  "identify_topics_trace E user_data st =
     (let prompt = identify_topics_trace_prompt E user_data;
          (output, st1) = generate E prompt st;
          topics =
            (case json_loads E (clean_json_output output) of
               Some v \<Rightarrow> v
             | None \<Rightarrow> JArr [])
      in ((topics, prompt, output), st1))"

text \<open>
  \<^verbatim>\<open>plan_roadmap_trace(user_data, persona, topics=None)\<close>: the argument \<open>topics0\<close> is
  \<open>JNull\<close> for \<^verbatim>\<open>None\<close>. The two dictionaries of prompts and of raw responses are
  association lists under the keys the source gives them.
\<close>

definition plan_roadmap_trace ::
  "env \<Rightarrow> json \<Rightarrow> json \<Rightarrow> json \<Rightarrow> sent \<Rightarrow>
     (py_error + json \<times> (string \<times> string) list \<times> (string \<times> string) list) \<times> sent" where
  "plan_roadmap_trace E user_data persona topics0 st =
     (let (think_prompt, topics_output, topics, st1) =
            (if topics0 = JNull then
               (let think_prompt = plan_roadmap_trace_think_prompt E user_data persona;
                    (topics_output, st1) = generate E think_prompt st;
                    topics =
                      (case json_loads E (clean_json_output topics_output) of
                         Some v \<Rightarrow> v
                       | None \<Rightarrow> JArr [])
                in (think_prompt, topics_output, topics, st1))
             else
               (let think_prompt = plan_roadmap_trace_think_prompt_given E user_data persona;
                    topics_output = (if py_truthy topics0 then json_dumps E topics0 else ''[]'')
                in (think_prompt, topics_output, topics0, st)));
          plan_prompt = plan_roadmap_trace_plan_prompt E topics;
          (structure_output, st2) = generate E plan_prompt st1;
          structure =
            (case json_loads E (clean_json_output structure_output) of
               Some v \<Rightarrow> v
             | None \<Rightarrow> JObj []);
          activities_prompt = plan_roadmap_trace_activities_prompt E user_data persona structure;
          (activities_output, st3) = generate E activities_prompt st2;
          activities =
            (case json_loads E (clean_json_output activities_output) of
               Some v \<Rightarrow> v
             | None \<Rightarrow> JObj []);
          roadmap_data =
            and_then (py_get user_data ''domain'' (JStr [])) (\<lambda>domain.
            and_then (py_get user_data ''goals'' (JArr [])) (\<lambda>goals.
            and_then (py_get user_data ''weekly_availability_hours'' (JInt 0)) (\<lambda>hours.
            and_then (py_get structure ''duration_days'' (JInt 30)) (\<lambda>duration_days.
            and_then (py_get activities ''total_estimated_hours'' (JInt 0)) (\<lambda>total.
            and_then (py_get activities ''levels'' (JArr [])) (\<lambda>levels.
              Inr (JObj
                [(''user_profile_summary'', JObj
                    [(''persona'', persona),
                     (''domain'', domain),
                     (''goals'', goals),
                     (''weekly_availability_hours'', hours)]),
                 (''roadmap'', JObj
                    [(''title'', JStr (''Personalized GenAI Roadmap for '' @ py_str persona)),
                     (''duration_days'', duration_days),
                     (''total_estimated_hours'', total),
                     (''levels'', levels)])])))))));
          plan_prompts =
            [(''topics'', think_prompt), (''structure'', plan_prompt),
             (''activities'', activities_prompt)];
          plan_responses =
            [(''topics'', topics_output), (''structure'', structure_output),
             (''activities'', activities_output)]
      in (and_then roadmap_data (\<lambda>rd. Inr (rd, plan_prompts, plan_responses)), st3))"

section \<open>Output formatting\<close>

text \<open>
  \<^verbatim>\<open>format_table\<close> has no \<^verbatim>\<open>try\<close> block: a \<^verbatim>\<open>.get\<close> on a value that is not a
  dictionary and a \<^verbatim>\<open>for\<close> over a value that is not iterable raise to the caller.
  The two loops are the recursive functions \<open>format_topics\<close> and \<open>format_levels\<close>, which
  give the lines the loop appends.
\<close>

fun format_topics :: "json list \<Rightarrow> py_error + string list" where
  "format_topics [] = Inr []"
| "format_topics (topic # rest) =
     and_then (py_get topic ''topic'' (JStr [])) (\<lambda>t.
     and_then (py_get topic ''activity'' (JStr [])) (\<lambda>a.
     and_then (py_get topic ''estimated_hours'' (JInt 0)) (\<lambda>h.
     and_then (py_get topic ''justification'' (JStr [])) (\<lambda>j.
     and_then (format_topics rest) (\<lambda>more.
       Inr ([''- Topic: '' @ py_str t,
             ''  Activity: '' @ py_str a,
             ''  Est. Hours: '' @ py_str h,
             ''  Justification: '' @ py_str j @ ''\<newline>''] @ more))))))"

fun format_levels :: "json list \<Rightarrow> py_error + string list" where
  "format_levels [] = Inr []"
| "format_levels (level # rest) =
     and_then (py_get level ''level'' (JStr ''?'')) (\<lambda>n.
     and_then (py_get level ''title'' (JStr [])) (\<lambda>t.
     and_then (py_get level ''estimated_hours'' (JInt 0)) (\<lambda>h.
     and_then (py_get level ''topics'' (JArr [])) (\<lambda>topics.
     and_then (py_iter topics) (\<lambda>ts.
     and_then (format_topics ts) (\<lambda>topic_lines.
     and_then (format_levels rest) (\<lambda>more.
       Inr ([''\<newline>Level '' @ py_str n @ '': '' @ py_str t @ '' (Est. '' @ py_str h @ '' hrs)'',
             replicate 60 (CHR ''-'')] @ topic_lines @ more))))))))"

definition format_table :: "json \<Rightarrow> py_error + string" where
  "format_table roadmap_data =
     and_then (py_get roadmap_data ''roadmap'' (JObj [])) (\<lambda>roadmap.
     and_then (py_get roadmap ''title'' (JStr ''GenAI Roadmap'')) (\<lambda>title.
     and_then (py_get roadmap ''duration_days'' (JInt 0)) (\<lambda>duration_days.
     and_then (py_get roadmap ''total_estimated_hours'' (JInt 0)) (\<lambda>total.
     and_then (py_get roadmap ''levels'' (JArr [])) (\<lambda>levels.
     and_then (py_iter levels) (\<lambda>ls.
     and_then (format_levels ls) (\<lambda>level_lines.
       Inr (py_join ''\<newline>''
         ([''\<newline>'' @ replicate 60 (CHR ''=''),
           py_str title,
           ''Duration: '' @ py_str duration_days @ '' days | Total Hours: '' @ py_str total,
           replicate 60 (CHR ''='')]
          @ level_lines
          @ [replicate 60 (CHR ''='') @ ''\<newline>''])))))))))"

text \<open>
  \<^verbatim>\<open>generate_pdf\<close>. The rendering backend is a parameter: whether the import of
  reportlab succeeded, its \<^verbatim>\<open>simpleSplit\<close>, whether \<^verbatim>\<open>canvas.save()\<close> writes the
  file (it raises OSError otherwise), and the name \<^verbatim>\<open>NamedTemporaryFile\<close> gives
  (\<open>None\<close> when it raises). The canvas is the list of the operations drawn on it.
  The page is \<^verbatim>\<open>letter\<close>, 612 by 792 points, the margin 40 and the line space 18; every
  coordinate the function computes is a whole number.
\<close>

datatype canvas_op = SetFont string nat | DrawString int int string | ShowPage

record host =
  REPORTLAB_AVAILABLE :: bool
  simpleSplit :: "string \<Rightarrow> string \<Rightarrow> nat \<Rightarrow> int \<Rightarrow> string list"
  canvas_save :: "string \<Rightarrow> canvas_op list \<Rightarrow> bool"
  named_temporary_file :: "string option"

fun draw_lines :: "int \<Rightarrow> int \<Rightarrow> string list \<Rightarrow> canvas_op list \<times> int" where
  "draw_lines x y [] = ([], y)"
| "draw_lines x y (line # rest) =
     (let (ops, y') = draw_lines x (y - 18) rest in (DrawString x y line # ops, y'))"

definition draw_wrapped ::
  "host \<Rightarrow> string \<Rightarrow> int \<Rightarrow> int \<Rightarrow> string \<Rightarrow> nat \<Rightarrow> int \<Rightarrow> canvas_op list \<times> int" where
  "draw_wrapped H text x y font_name font_size max_width =
     (let (ops, y') = draw_lines x y (simpleSplit H text font_name font_size max_width)
      in (SetFont font_name font_size # ops, y'))"

fun pdf_topics :: "host \<Rightarrow> json list \<Rightarrow> int \<Rightarrow> py_error + canvas_op list \<times> int" where
  "pdf_topics H [] y = Inr ([], y)"
| "pdf_topics H (topic # rest) y =
     and_then (py_get topic ''topic'' (JStr [])) (\<lambda>t.
     and_then (py_get topic ''activity'' (JStr [])) (\<lambda>a.
     and_then (py_get topic ''estimated_hours'' (JInt 0)) (\<lambda>h.
     and_then (py_get topic ''justification'' (JStr [])) (\<lambda>j.
       (let (ops1, y1) = draw_wrapped H (''- Topic: '' @ py_str t) 50 y ''Helvetica-Bold'' 11 522;
            (ops2, y2) = draw_wrapped H (''Activity: '' @ py_str a) 70 y1 ''Helvetica'' 11 502;
            (ops3, y3) = draw_wrapped H (''Est. Hours: '' @ py_str h) 70 y2 ''Helvetica'' 11 502;
            (ops4, y4) = draw_wrapped H (''Justification: '' @ py_str j) 70 y3 ''Helvetica-Oblique'' 11 502;
            y5 = y4 - 8;
            (ops5, y6) = (if y5 < 80 then ([ShowPage], 752) else ([], y5))
        in and_then (pdf_topics H rest y6) (\<lambda>r.
             Inr (ops1 @ ops2 @ ops3 @ ops4 @ ops5 @ fst r, snd r)))))))"

fun pdf_levels :: "host \<Rightarrow> json list \<Rightarrow> int \<Rightarrow> py_error + canvas_op list \<times> int" where
  "pdf_levels H [] y = Inr ([], y)"
| "pdf_levels H (level # rest) y =
     and_then (py_get level ''level'' (JStr ''?'')) (\<lambda>n.
     and_then (py_get level ''title'' (JStr [])) (\<lambda>t.
     and_then (py_get level ''estimated_hours'' (JInt 0)) (\<lambda>h.
       (let (ops1, y1) =
              draw_wrapped H
                (''Level '' @ py_str n @ '': '' @ py_str t @ '' (Est. '' @ py_str h @ '' hrs)'')
                40 y ''Helvetica-Bold'' 13 532
        in and_then (py_get level ''topics'' (JArr [])) (\<lambda>topics.
           and_then (py_iter topics) (\<lambda>ts.
           and_then (pdf_topics H ts (y1 - 4)) (\<lambda>r1.
           and_then (pdf_levels H rest (snd r1 - 8)) (\<lambda>r2.
             Inr ([SetFont ''Helvetica-Bold'' 13] @ ops1 @ [SetFont ''Helvetica'' 11]
                  @ fst r1 @ fst r2, snd r2)))))))))"

definition generate_pdf :: "host \<Rightarrow> json \<Rightarrow> string \<Rightarrow> py_error + string" where
  "generate_pdf H roadmap_data output_path =
     (if \<not> REPORTLAB_AVAILABLE H then Inr []
      else
        and_then (py_get roadmap_data ''roadmap'' (JObj [])) (\<lambda>roadmap.
        and_then (py_get roadmap ''title'' (JStr ''GenAI Roadmap'')) (\<lambda>title.
          (let (ops1, y1) = draw_wrapped H (py_str title) 40 752 ''Helvetica-Bold'' 16 532
           in and_then (py_get roadmap ''duration_days'' (JInt 0)) (\<lambda>duration_days.
              and_then (py_get roadmap ''total_estimated_hours'' (JInt 0)) (\<lambda>total.
                (let (ops2, y2) =
                       draw_wrapped H
                         (''Duration: '' @ py_str duration_days @ '' days | Total Hours: ''
                            @ py_str total)
                         40 (y1 - 8) ''Helvetica'' 12 532
                 in and_then (py_get roadmap ''levels'' (JArr [])) (\<lambda>levels.
                    and_then (py_iter levels) (\<lambda>ls.
                    and_then (pdf_levels H ls (y2 - 12)) (\<lambda>r.
                      (if canvas_save H output_path
                            ([SetFont ''Helvetica-Bold'' 16] @ ops1 @ [SetFont ''Helvetica'' 12]
                             @ ops2 @ fst r)
                       then Inr output_path
                       else Inl OSError)))))))))))"

section \<open>The orchestrator\<close>

definition generate_roadmap ::
  "env \<Rightarrow> host \<Rightarrow> string \<Rightarrow> string \<Rightarrow> string \<Rightarrow> bool \<Rightarrow> sent \<Rightarrow>
     (py_error + json \<times> string \<times> string option) \<times> sent" where
  "generate_roadmap E H resume_text interview_summary_text goals_text with_pdf st =
     (let (user_data, st1) = extract_user_data E resume_text interview_summary_text goals_text st;
          (pj, st2) = classify_persona E user_data st1;
          persona = fst pj;
          (planned, st3) = plan_roadmap E user_data persona st2
      in (and_then planned (\<lambda>roadmap_data.
          and_then (format_table roadmap_data) (\<lambda>roadmap_table.
            (if with_pdf \<and> REPORTLAB_AVAILABLE H then
               (case named_temporary_file H of
                  None \<Rightarrow> Inl OSError
                | Some pdf_path \<Rightarrow>
                    and_then (generate_pdf H roadmap_data pdf_path) (\<lambda>written.
                      Inr (roadmap_data, roadmap_table, Some pdf_path)))
             else Inr (roadmap_data, roadmap_table, None)))), st3))"

section \<open>Names for the parts of a run\<close>

text \<open>
  \<open>reply E n prompt\<close> is the text \<^verbatim>\<open>GeminiAPI.generate\<close> returns for the \<open>n\<close>-th
  request. The three sub-stages of \<^verbatim>\<open>plan_roadmap\<close> and its final assembly are named
  here for the proofs; \<open>plan_roadmap_stages\<close> below shows that \<open>plan_roadmap\<close> is their
  composition.
\<close>

definition reply :: "env \<Rightarrow> nat \<Rightarrow> string \<Rightarrow> string" where
  "reply E n prompt =
     (case generate_content E n prompt of Inr text \<Rightarrow> strip text | Inl e \<Rightarrow> [])"

definition think_stage :: "env \<Rightarrow> json \<Rightarrow> json \<Rightarrow> sent \<Rightarrow> json \<times> sent" where
  "think_stage E user_data persona st =
     (let (topics_output, st1) = generate E (plan_roadmap_think_prompt E user_data persona) st
      in (case json_loads E (clean_json_output topics_output) of
            Some v \<Rightarrow> (v, st1)
          | None \<Rightarrow> (JArr [], st1)))"

definition structure_stage :: "env \<Rightarrow> json \<Rightarrow> sent \<Rightarrow> json \<times> sent" where
  "structure_stage E topics st =
     (let (structure_output, st1) = generate E (plan_roadmap_plan_prompt E topics) st
      in (case json_loads E (clean_json_output structure_output) of
            Some v \<Rightarrow> (v, st1)
          | None \<Rightarrow> (JObj [], st1)))"

definition activities_stage :: "env \<Rightarrow> json \<Rightarrow> json \<Rightarrow> json \<Rightarrow> sent \<Rightarrow> json \<times> sent" where
  "activities_stage E user_data persona structure st =
     (let (activities_output, st1) =
            generate E (plan_roadmap_activities_prompt E user_data persona structure) st
      in (case json_loads E (clean_json_output activities_output) of
            Some v \<Rightarrow> (v, st1)
          | None \<Rightarrow> (JObj [], st1)))"

definition assemble :: "json \<Rightarrow> json \<Rightarrow> json \<Rightarrow> json \<Rightarrow> py_error + json" where
  "assemble user_data persona structure activities =
     and_then (py_get user_data ''domain'' (JStr [])) (\<lambda>domain.
     and_then (py_get user_data ''goals'' (JArr [])) (\<lambda>goals.
     and_then (py_get user_data ''weekly_availability_hours'' (JInt 0)) (\<lambda>hours.
     and_then (py_get structure ''duration_days'' (JInt 30)) (\<lambda>duration_days.
     and_then (py_get activities ''total_estimated_hours'' (JInt 0)) (\<lambda>total.
     and_then (py_get activities ''levels'' (JArr [])) (\<lambda>levels.
       Inr (JObj
         [(''user_profile_summary'', JObj
             [(''persona'', persona),
              (''domain'', domain),
              (''goals'', goals),
              (''weekly_availability_hours'', hours)]),
          (''roadmap'', JObj
             [(''title'', JStr (''Personalized GenAI Roadmap for '' @ py_str persona)),
              (''duration_days'', duration_days),
              (''total_estimated_hours'', total),
              (''levels'', levels)])])))))))"

text \<open>Reading a field of the roadmap record a run returns.\<close>

definition field :: "string \<Rightarrow> json \<Rightarrow> json option" where
  "field k v = (case v of JObj kvs \<Rightarrow> map_of kvs k | _ \<Rightarrow> None)"

definition roadmap_field :: "string \<Rightarrow> json \<Rightarrow> json option" where
  "roadmap_field k roadmap_data =
     (case field ''roadmap'' roadmap_data of Some r \<Rightarrow> field k r | None \<Rightarrow> None)"

definition is_dict :: "json \<Rightarrow> bool" where
  "is_dict v = (case v of JObj kvs \<Rightarrow> True | _ \<Rightarrow> False)"

section \<open>A reference reader for the examples\<close>

text \<open>
  The theorems below hold for every \<open>json_loads\<close>. To run the program on concrete
  responses, \<open>loads_ref\<close> reads the part of JSON the examples use, as \<^verbatim>\<open>json.loads\<close>
  reads it: \<^verbatim>\<open>null\<close>, \<^verbatim>\<open>true\<close>, \<^verbatim>\<open>false\<close>, integers, strings with the
  two-character escapes, arrays and objects, with JSON whitespace between tokens. A
  number with a fraction or an exponent, the constants \<^verbatim>\<open>NaN\<close> and
  \<^verbatim>\<open>Infinity\<close>, and a \<^verbatim>\<open>\u\<close> escape are outside that part and are not
  used in any example. The first argument of the recursive functions bounds
  the nesting and the number of elements by the length of the text.
\<close>

definition is_json_ws :: "char \<Rightarrow> bool" where
  "is_json_ws c = (c = CHR '' '' \<or> c = CHR 0x09 \<or> c = CHR 0x0A \<or> c = CHR 0x0D)"

definition skip_ws :: "string \<Rightarrow> string" where
  "skip_ws s = dropWhile is_json_ws s"

definition is_digit :: "char \<Rightarrow> bool" where
  "is_digit c = (let n = (of_char c :: nat) in 48 \<le> n \<and> n \<le> 57)"

definition digits_value :: "string \<Rightarrow> nat" where
  "digits_value ds = foldl (\<lambda>acc c. 10 * acc + (of_char c - 48)) 0 ds"

text \<open>An integer literal: an optional minus sign, then \<^verbatim>\<open>0\<close> or digits with no leading zero.\<close>

definition read_int :: "string \<Rightarrow> (json \<times> string) option" where
  "read_int s =
     (let neg = startswith s ''-'';
          body = (if neg then drop 1 s else s);
          ds = takeWhile is_digit body;
          rest = dropWhile is_digit body
      in if ds = [] \<or> (hd ds = CHR ''0'' \<and> length ds > 1) then None
         else if startswith rest ''.'' \<or> startswith rest ''e'' \<or> startswith rest ''E'' then None
         else Some (JInt (if neg then - int (digits_value ds) else int (digits_value ds)), rest))"

text \<open>The text of a string literal after its opening quote, up to the closing quote.\<close>

fun read_string :: "string \<Rightarrow> (string \<times> string) option" where
  "read_string [] = None"
| "read_string [c] = (if c = CHR 0x22 then Some ([], []) else None)"
| "read_string (c # d # rest) =
     (if c = CHR 0x22 then Some ([], d # rest)
      else if c = CHR 0x5C then
        (let e = (if d = CHR 0x22 \<or> d = CHR 0x5C \<or> d = CHR ''/'' then Some d
                  else if d = CHR ''n'' then Some (CHR 0x0A)
                  else if d = CHR ''t'' then Some (CHR 0x09)
                  else if d = CHR ''r'' then Some (CHR 0x0D)
                  else if d = CHR ''b'' then Some (CHR 0x08)
                  else if d = CHR ''f'' then Some (CHR 0x0C)
                  else None)
         in case e of
              None \<Rightarrow> None
            | Some x \<Rightarrow> map_option (\<lambda>r. (x # fst r, snd r)) (read_string rest))
      else if (of_char c :: nat) < 32 then None
      else map_option (\<lambda>r. (c # fst r, snd r)) (read_string (d # rest)))"

text \<open>\<^verbatim>\<open>dict\<close> built from the pairs in order: a repeated key keeps its place and takes the later value.\<close>

fun dict_set :: "(string \<times> json) list \<Rightarrow> string \<Rightarrow> json \<Rightarrow> (string \<times> json) list" where
  "dict_set [] k v = [(k, v)]"
| "dict_set (p # ps) k v = (if fst p = k then (k, v) # ps else p # dict_set ps k v)"

fun read_value :: "nat \<Rightarrow> string \<Rightarrow> (json \<times> string) option"
  and read_elems :: "nat \<Rightarrow> string \<Rightarrow> (json list \<times> string) option"
  and read_members :: "nat \<Rightarrow> string \<Rightarrow> ((string \<times> json) list \<times> string) option" where
  "read_value 0 s = None"
| "read_value (Suc n) s =
     (if startswith s ''null'' then Some (JNull, drop 4 s)
      else if startswith s ''true'' then Some (JBool True, drop 4 s)
      else if startswith s ''false'' then Some (JBool False, drop 5 s)
      else if startswith s [CHR 0x22] then
        map_option (\<lambda>r. (JStr (fst r), snd r)) (read_string (drop 1 s))
      else if startswith s ''['' then
        (let r = skip_ws (drop 1 s)
         in if startswith r '']'' then Some (JArr [], drop 1 r)
            else map_option (\<lambda>p. (JArr (fst p), snd p)) (read_elems n r))
      else if startswith s ''{'' then
        (let r = skip_ws (drop 1 s)
         in if startswith r ''}'' then Some (JObj [], drop 1 r)
            else map_option (\<lambda>p. (JObj (foldl (\<lambda>d kv. dict_set d (fst kv) (snd kv)) [] (fst p)), snd p))
                   (read_members n r))
      else read_int s)"
| "read_elems 0 s = None"
| "read_elems (Suc n) s =
     (case read_value n s of
        None \<Rightarrow> None
      | Some (v, r) \<Rightarrow>
          (let r1 = skip_ws r
           in if startswith r1 '','' then
                map_option (\<lambda>p. (v # fst p, snd p)) (read_elems n (skip_ws (drop 1 r1)))
              else if startswith r1 '']'' then Some ([v], drop 1 r1)
              else None))"
| "read_members 0 s = None"
| "read_members (Suc n) s =
     (if startswith s [CHR 0x22] then
        (case read_string (drop 1 s) of
           None \<Rightarrow> None
         | Some (k, r) \<Rightarrow>
             (let r1 = skip_ws r
              in if startswith r1 '':'' then
                   (case read_value n (skip_ws (drop 1 r1)) of
                      None \<Rightarrow> None
                    | Some (v, r2) \<Rightarrow>
                        (let r3 = skip_ws r2
                         in if startswith r3 '','' then
                              map_option (\<lambda>p. ((k, v) # fst p, snd p))
                                (read_members n (skip_ws (drop 1 r3)))
                            else if startswith r3 ''}'' then Some ([(k, v)], drop 1 r3)
                            else None))
                 else None))
      else None)"

definition loads_ref :: "string \<Rightarrow> json option" where
  "loads_ref s =
     (case read_value (Suc (length s)) (skip_ws s) of
        None \<Rightarrow> None
      | Some (v, r) \<Rightarrow> (if skip_ws r = [] then Some v else None))"

text \<open>
  \<open>dumps_ref\<close> writes a value as \<^verbatim>\<open>json.dumps(v, indent=2)\<close> does; it is the
  \<open>json_dumps\<close> of the example environments.
\<close>

definition json_escape_char :: "char \<Rightarrow> string" where
  "json_escape_char c =
     (let n = (of_char c :: nat)
      in if n = 34 \<or> n = 92 then [CHR 0x5C, c]
         else if n = 10 then [CHR 0x5C, CHR ''n'']
         else if n = 13 then [CHR 0x5C, CHR ''r'']
         else if n = 9 then [CHR 0x5C, CHR ''t'']
         else if n = 8 then [CHR 0x5C, CHR ''b'']
         else if n = 12 then [CHR 0x5C, CHR ''f'']
         else if n < 32 \<or> 126 < n
           then [CHR 0x5C, CHR ''u'', CHR ''0'', CHR ''0'', hex_char (n div 16), hex_char (n mod 16)]
         else [c])"

definition json_string :: "string \<Rightarrow> string" where
  "json_string s = [CHR 0x22] @ concat (map json_escape_char s) @ [CHR 0x22]"

fun dumps_at :: "nat \<Rightarrow> json \<Rightarrow> string" where
  "dumps_at n JNull = ''null''"
| "dumps_at n (JBool b) = (if b then ''true'' else ''false'')"
| "dumps_at n (JInt i) = show_int i"
| "dumps_at n (JFloat r) =
     (if r = ''nan'' then ''NaN'' else if r = ''inf'' then ''Infinity''
      else if r = ''-inf'' then ''-Infinity'' else r)"
| "dumps_at n (JStr s) = json_string s"
| "dumps_at n (JArr xs) =
     (if xs = [] then ''[]''
      else ''[\<newline>'' @ replicate (n + 2) (CHR '' '')
           @ py_join ('',\<newline>'' @ replicate (n + 2) (CHR '' '')) (map (dumps_at (n + 2)) xs)
           @ ''\<newline>'' @ replicate n (CHR '' '') @ '']'')"
| "dumps_at n (JObj kvs) =
     (if kvs = [] then ''{}''
      else ''{\<newline>'' @ replicate (n + 2) (CHR '' '')
           @ py_join ('',\<newline>'' @ replicate (n + 2) (CHR '' ''))
               (map (\<lambda>kv. json_string (fst kv) @ '': '' @ dumps_at (n + 2) (snd kv)) kvs)
           @ ''\<newline>'' @ replicate n (CHR '' '') @ ''}'')"

definition dumps_ref :: "json \<Rightarrow> string" where
  "dumps_ref v = dumps_at 0 v"

section \<open>Example environments\<close>

text \<open>A model that answers every request with a sentence that is not JSON.\<close>

definition env_refusing :: env where
  "env_refusing =
     \<lparr>generate_content = (\<lambda>n prompt. Inr ''I am sorry, I cannot help with that.''),
      json_loads = loads_ref,
      json_dumps = dumps_ref\<rparr>"

text \<open>A model every request to which fails (the quota is exhausted).\<close>

definition env_silent :: env where
  "env_silent =
     \<lparr>generate_content = (\<lambda>n prompt. Inl QuotaError),
      json_loads = loads_ref,
      json_dumps = dumps_ref\<rparr>"

text \<open>A model that answers the \<open>n\<close>-th request with the \<open>n\<close>-th text of a list.\<close>

definition env_scripted :: "string list \<Rightarrow> env" where
  "env_scripted responses =
     \<lparr>generate_content =
        (\<lambda>n prompt. if n < length responses then Inr (responses ! n) else Inl NetworkError),
      json_loads = loads_ref,
      json_dumps = dumps_ref\<rparr>"

text \<open>A host without reportlab, and one with it that wraps no line and writes every file.\<close>

definition host_plain :: host where
  "host_plain =
     \<lparr>REPORTLAB_AVAILABLE = False,
      simpleSplit = (\<lambda>text font_name font_size max_width. [text]),
      canvas_save = (\<lambda>path ops. True),
      named_temporary_file = Some ''/tmp/tmpab12cd.pdf''\<rparr>"

definition host_pdf :: host where
  "host_pdf =
     \<lparr>REPORTLAB_AVAILABLE = True,
      simpleSplit = (\<lambda>text font_name font_size max_width. [text]),
      canvas_save = (\<lambda>path ops. True),
      named_temporary_file = Some ''/tmp/tmpab12cd.pdf''\<rparr>"

text \<open>Example responses.\<close>

definition response_persona_only :: string where
  \<open>response_persona_only = ''{"persona": "College student"}''\<close>

definition response_profile :: string where
  \<open>response_profile =
     ''```json\<newline>{"domain": "backend", "goals": ["integrate GenAI"], "weekly_availability_hours": 8}\<newline>```''\<close>

section \<open>Roadmap records\<close>

text \<open>
  A roadmap record as the data model describes it, every field optional: a dictionary;
  its \<open>roadmap\<close>, when present, a dictionary; the \<open>levels\<close> of that, when present, a list
  of dictionaries; the \<open>topics\<close> of a level, when present, a list of dictionaries. The
  other fields may hold any value.
\<close>

definition wf_level :: "json \<Rightarrow> bool" where
  "wf_level l =
     (case l of
        JObj kvs \<Rightarrow>
          (case map_of kvs ''topics'' of
             None \<Rightarrow> True
           | Some (JArr ts) \<Rightarrow> list_all is_dict ts
           | Some _ \<Rightarrow> False)
      | _ \<Rightarrow> False)"

definition wf_roadmap :: "json \<Rightarrow> bool" where
  "wf_roadmap r =
     (case r of
        JObj kvs \<Rightarrow>
          (case map_of kvs ''levels'' of
             None \<Rightarrow> True
           | Some (JArr ls) \<Rightarrow> list_all wf_level ls
           | Some _ \<Rightarrow> False)
      | _ \<Rightarrow> False)"

definition wf_roadmap_data :: "json \<Rightarrow> bool" where
  "wf_roadmap_data rd =
     (case rd of
        JObj kvs \<Rightarrow> (case map_of kvs ''roadmap'' of None \<Rightarrow> True | Some r \<Rightarrow> wf_roadmap r)
      | _ \<Rightarrow> False)"

text \<open>
  The shape the structure prompt and the activities prompt ask for, as far as the final
  record depends on it: a structure with a \<open>duration_days\<close> of 21, 30 or 45, and
  activities with a list of at least one level.
\<close>

definition structure_shape :: "json \<Rightarrow> bool" where
  "structure_shape s =
     (case s of
        JObj kvs \<Rightarrow> map_of kvs ''duration_days'' \<in> {Some (JInt 21), Some (JInt 30), Some (JInt 45)}
      | _ \<Rightarrow> False)"

definition activities_shape :: "json \<Rightarrow> bool" where
  "activities_shape a =
     (case a of
        JObj kvs \<Rightarrow>
          (case map_of kvs ''levels'' of
             Some (JArr ls) \<Rightarrow> ls \<noteq> [] \<and> list_all wf_level ls
           | _ \<Rightarrow> False)
      | _ \<Rightarrow> False)"

text \<open>A host with reportlab whose canvas cannot write the file.\<close>

definition host_readonly :: host where
  "host_readonly =
     \<lparr>REPORTLAB_AVAILABLE = True,
      simpleSplit = (\<lambda>text font_name font_size max_width. [text]),
      canvas_save = (\<lambda>path ops. False),
      named_temporary_file = Some ''/tmp/tmpab12cd.pdf''\<rparr>"

definition response_persona :: string where
  \<open>response_persona =
     ''{"persona": "Working professional (tech)", "justification": "5 years of backend work"}''\<close>

definition response_topics :: string where
  \<open>response_topics = ''[{"topic": "Prompt engineering", "justification": "hands-on"}]''\<close>

definition response_structure :: string where
  \<open>response_structure =
     ''{"duration_days": 30, "levels": [{"level": 1, "title": "Foundations", "topics": ["Prompt engineering"], "justification": "start"}], "structure_justification": "8 hours a week"}''\<close>

definition response_activities :: string where
  \<open>response_activities =
     ''{"levels": [{"level": 1, "title": "Foundations", "estimated_hours": 8, "topics": [{"topic": "Prompt engineering", "activity": "Build a prompt library", "estimated_hours": 8, "justification": "hands-on"}]}], "total_estimated_hours": 8}''\<close>

text \<open>
  The values the five stages of \<^verbatim>\<open>generate_roadmap\<close> obtain from the five model
  responses of a run: the profile, the persona, the topics, the structure and the
  activities.
\<close>

definition pipeline_values ::
  "env \<Rightarrow> string \<Rightarrow> string \<Rightarrow> string \<Rightarrow> sent \<Rightarrow> json \<times> json \<times> json \<times> json \<times> json" where
  "pipeline_values E resume_text interview_summary_text goals_text st =
     (let (user_data, st1) = extract_user_data E resume_text interview_summary_text goals_text st;
          (pj, st2) = classify_persona E user_data st1;
          persona = fst pj;
          (topics, st3) = think_stage E user_data persona st2;
          (structure, st4) = structure_stage E topics st3;
          (activities, st5) = activities_stage E user_data persona structure st4
      in (user_data, persona, topics, structure, activities))"

section \<open>What the claims speak of\<close>

text \<open>
  A response carries a JSON value in one of two ways. \<open>Some (ws1, tag, inner, ws2)\<close>: the
  response is a fenced block, three backticks, a tag of letters that may be empty, a
  newline, the inner text and three backticks, with whitespace \<open>ws1\<close> before and \<open>ws2\<close>
  after the block. \<open>None\<close>: the response is the text itself, and does not begin with a
  fence. In both the text inside, trimmed, is JSON for the value \<open>v\<close>.
\<close>

definition carries ::
  "env \<Rightarrow> string \<Rightarrow> (string \<times> string \<times> string \<times> string) option \<Rightarrow> json \<Rightarrow> bool" where
  "carries E text wrapping v =
     (case wrapping of
        Some (ws1, tag, inner, ws2) \<Rightarrow>
          text = ws1 @ (''```'' @ tag @ ''\<newline>'' @ inner @ ''```'') @ ws2
          \<and> list_all is_space ws1 \<and> list_all is_letter tag \<and> list_all is_space ws2
          \<and> json_loads E (strip inner) = Some v
      | None \<Rightarrow>
          \<not> startswith (strip text) ''```'' \<and> json_loads E (strip text) = Some v)"

text \<open>
  The rendering the claim about \<^verbatim>\<open>format_table\<close> describes, with the default of every
  field written out: the value under a key of a dictionary, or the default when the key
  is missing.
\<close>

definition get_or :: "json \<Rightarrow> string \<Rightarrow> json \<Rightarrow> json" where
  "get_or d k dflt = (case field k d of Some v \<Rightarrow> v | None \<Rightarrow> dflt)"

definition elems :: "json \<Rightarrow> json list" where
  "elems v = (case v of JArr xs \<Rightarrow> xs | _ \<Rightarrow> [])"

definition render_topic :: "json \<Rightarrow> string list" where
  "render_topic topic =
     [''- Topic: '' @ py_str (get_or topic ''topic'' (JStr [])),
      ''  Activity: '' @ py_str (get_or topic ''activity'' (JStr [])),
      ''  Est. Hours: '' @ py_str (get_or topic ''estimated_hours'' (JInt 0)),
      ''  Justification: '' @ py_str (get_or topic ''justification'' (JStr [])) @ ''\<newline>'']"

definition render_level :: "json \<Rightarrow> string list" where
  "render_level level =
     [''\<newline>Level '' @ py_str (get_or level ''level'' (JStr ''?'')) @ '': ''
        @ py_str (get_or level ''title'' (JStr [])) @ '' (Est. ''
        @ py_str (get_or level ''estimated_hours'' (JInt 0)) @ '' hrs)'',
      replicate 60 (CHR ''-'')]
     @ concat (map render_topic (elems (get_or level ''topics'' (JArr []))))"

definition render_table :: "json \<Rightarrow> string" where
  "render_table roadmap_data =
     (let roadmap = get_or roadmap_data ''roadmap'' (JObj [])
      in py_join ''\<newline>''
           ([''\<newline>'' @ replicate 60 (CHR ''=''),
             py_str (get_or roadmap ''title'' (JStr ''GenAI Roadmap'')),
             ''Duration: '' @ py_str (get_or roadmap ''duration_days'' (JInt 0))
               @ '' days | Total Hours: ''
               @ py_str (get_or roadmap ''total_estimated_hours'' (JInt 0)),
             replicate 60 (CHR ''='')]
            @ concat (map render_level (elems (get_or roadmap ''levels'' (JArr []))))
            @ [replicate 60 (CHR ''='') @ ''\<newline>'']))"

text \<open>The JSON text inside the fenced example response of the profile.\<close>

definition response_profile_inner :: string where
  \<open>response_profile_inner =
     ''{"domain": "backend", "goals": ["integrate GenAI"], "weekly_availability_hours": 8}\<newline>''\<close>

section \<open>Facts about trimming\<close>

lemma dropWhile_all_append: "list_all P ws \<Longrightarrow> dropWhile P (ws @ s) = dropWhile P s"
  by (induction ws) simp_all

lemma rstrip_append_space: "list_all is_space ws \<Longrightarrow> rstrip (s @ ws) = rstrip s"
  by (simp add: rstrip_def dropWhile_all_append)

lemma lstrip_append_space: "list_all is_space ws \<Longrightarrow> lstrip (ws @ s) = lstrip s"
  by (simp add: lstrip_def dropWhile_all_append)

lemma lstrip_no_space: "s \<noteq> [] \<Longrightarrow> \<not> is_space (hd s) \<Longrightarrow> lstrip s = s"
  by (cases s) (simp_all add: lstrip_def)

lemma rstrip_no_space: "s \<noteq> [] \<Longrightarrow> \<not> is_space (last s) \<Longrightarrow> rstrip s = s"
  by (cases s rule: rev_cases) (simp_all add: rstrip_def)

lemma lstrip_hd: "lstrip s \<noteq> [] \<Longrightarrow> \<not> is_space (hd (lstrip s))"
  unfolding lstrip_def by (metis hd_dropWhile)

lemma rstrip_last: "rstrip s \<noteq> [] \<Longrightarrow> \<not> is_space (last (rstrip s))"
  unfolding rstrip_def by (metis hd_dropWhile last_rev rev_is_Nil_conv)

lemma rstrip_hd: "rstrip s \<noteq> [] \<Longrightarrow> s \<noteq> [] \<and> hd (rstrip s) = hd s"
proof (induction s rule: rev_induct)
  case Nil
  then show ?case by (simp add: rstrip_def)
next
  case (snoc x xs)
  show ?case
  proof (cases "is_space x")
    case True
    then have eq: "rstrip (xs @ [x]) = rstrip xs" by (simp add: rstrip_def)
    with snoc have "xs \<noteq> [] \<and> hd (rstrip xs) = hd xs" by simp
    with eq show ?thesis by simp
  next
    case False
    then show ?thesis by (simp add: rstrip_def)
  qed
qed

lemma strip_hd: "strip s \<noteq> [] \<Longrightarrow> \<not> is_space (hd (strip s))"
  unfolding strip_def using rstrip_hd [of "lstrip s"] lstrip_hd [of s] by auto

lemma strip_last: "strip s \<noteq> [] \<Longrightarrow> \<not> is_space (last (strip s))"
  unfolding strip_def by (rule rstrip_last)

lemma strip_fixed: "s \<noteq> [] \<Longrightarrow> \<not> is_space (hd s) \<Longrightarrow> \<not> is_space (last s) \<Longrightarrow> strip s = s"
  by (simp add: strip_def lstrip_no_space rstrip_no_space)

lemma strip_Nil: "strip [] = []"
  by (simp add: strip_def lstrip_def rstrip_def)

lemma strip_idem: "strip (strip s) = strip s"
proof (cases "strip s = []")
  case True
  then show ?thesis by (simp add: strip_Nil)
next
  case False
  then show ?thesis by (simp add: strip_fixed strip_hd strip_last)
qed

lemma strip_spaces_around:
  "list_all is_space ws1 \<Longrightarrow> list_all is_space ws2 \<Longrightarrow> strip (ws1 @ s @ ws2) = strip s"
proof -
  assume a: "list_all is_space ws1" and b: "list_all is_space ws2"
  have "strip (ws1 @ s @ ws2) = rstrip (lstrip (s @ ws2))"
    by (simp add: strip_def lstrip_append_space a)
  also have "\<dots> = rstrip (lstrip s)"
  proof (cases "list_all is_space s")
    case True
    with b have "list_all is_space (s @ ws2)" by simp
    then have "lstrip (s @ ws2) = []" by (simp add: lstrip_def list_all_iff)
    moreover from True have "lstrip s = []" by (simp add: lstrip_def list_all_iff)
    ultimately show ?thesis by simp
  next
    case False
    then have "lstrip (s @ ws2) = lstrip s @ ws2"
      by (auto simp: lstrip_def list_all_iff dropWhile_append1)
    then show ?thesis by (simp add: rstrip_append_space b)
  qed
  finally show ?thesis by (simp add: strip_def)
qed

section \<open>The normalizer on fenced and unfenced text\<close>

lemma startswith_append: "startswith (p @ s) p"
  by (simp add: startswith_def)

lemma endswith_append: "endswith (s @ p) p"
  by (simp add: endswith_def)

lemma sub_fence_tagged:
  assumes "list_all is_letter tag"
  shows "sub_fence (''```'' @ tag @ ''\<newline>'' @ rest) = rest"
proof -
  have "dropWhile is_letter (tag @ ''\<newline>'' @ rest) = ''\<newline>'' @ rest"
    using assms by (simp add: dropWhile_all_append is_letter_def)
  then show ?thesis
    by (simp add: sub_fence_def startswith_def)
qed

lemma strip_fenced:
  "strip (''```'' @ s) = ''```'' @ s" if "s \<noteq> []" "\<not> is_space (last s)"
  using that by (simp add: strip_fixed is_space_def)

lemma clean_json_output_fenced:
  assumes tag: "list_all is_letter tag"
    and ws: "list_all is_space ws1" "list_all is_space ws2"
  shows "clean_json_output (ws1 @ (''```'' @ tag @ ''\<newline>'' @ inner @ ''```'') @ ws2)
    = strip inner"
proof -
  let ?body = "tag @ ''\<newline>'' @ inner @ ''```''"
  have "strip (ws1 @ (''```'' @ ?body) @ ws2) = strip (''```'' @ ?body)"
    using ws by (rule strip_spaces_around)
  also have "\<dots> = ''```'' @ ?body"
    by (rule strip_fenced) (simp_all add: is_space_def)
  finally have s1: "strip (ws1 @ (''```'' @ ?body) @ ws2) = ''```'' @ ?body" .
  have s2: "sub_fence (''```'' @ ?body) = inner @ ''```''"
    using tag by (rule sub_fence_tagged)
  have s3: "startswith (''```'' @ ?body) ''```''"
    by (rule startswith_append)
  have s4: "endswith (inner @ ''```'') ''```''"
    by (rule endswith_append)
  have s5: "take (length (inner @ ''```'') - 3) (inner @ ''```'') = inner"
    by simp
  show ?thesis
    unfolding clean_json_output_def Let_def s1 s2 using s3 s4 s5 by simp
qed

lemma clean_json_output_unfenced:
  assumes "\<not> startswith (strip s) ''```''"
  shows "clean_json_output s = strip s"
  using assms by (simp add: clean_json_output_def strip_idem)

lemma clean_json_output_open_fence:
  assumes tag: "list_all is_letter tag"
    and rest: "rest \<noteq> []" "\<not> is_space (last rest)" "\<not> endswith rest ''```''"
  shows "clean_json_output (''```'' @ tag @ ''\<newline>'' @ rest) = strip rest"
proof -
  let ?body = "tag @ ''\<newline>'' @ rest"
  have s1: "strip (''```'' @ ?body) = ''```'' @ ?body"
    by (rule strip_fenced) (use rest in simp_all)
  have s2: "sub_fence (''```'' @ ?body) = rest"
    using tag by (rule sub_fence_tagged)
  have s3: "startswith (''```'' @ ?body) ''```''"
    by (rule startswith_append)
  show ?thesis
    unfolding clean_json_output_def Let_def s1 s2 using s3 rest(3) by simp
qed

text \<open>
  Claim C3, as amended. A text wrapped as a fenced block (three backticks, a tag of
  letters that may be empty, a newline, the inner text, three backticks), with any
  whitespace around the block, is normalized to the inner text trimmed of surrounding
  whitespace. A text that, once trimmed, does not begin with three backticks is
  normalized to itself, trimmed. A text that begins with a fence line and has no closing
  fence still loses the fence line: what follows that line is returned, trimmed.
\<close>

theorem clean_json_output_fence_cases:
  "(list_all is_letter tag \<and> list_all is_space ws1 \<and> list_all is_space ws2 \<longrightarrow>
      clean_json_output (ws1 @ (''```'' @ tag @ ''\<newline>'' @ inner @ ''```'') @ ws2) = strip inner)
   \<and> (\<not> startswith (strip s) ''```'' \<longrightarrow> clean_json_output s = strip s)
   \<and> (list_all is_letter tag \<and> rest \<noteq> [] \<and> \<not> is_space (last rest) \<and> \<not> endswith rest ''```'' \<longrightarrow>
      clean_json_output (''```'' @ tag @ ''\<newline>'' @ rest) = strip rest)"
  using clean_json_output_fenced [of tag ws1 ws2 inner] clean_json_output_unfenced [of s]
    clean_json_output_open_fence [of tag rest]
  by blast

theorem clean_json_output_fence_cases_witness:
  "clean_json_output ('' '' @ (''```'' @ ''json'' @ ''\<newline>'' @ ''{} \<newline>'' @ ''```'') @ ''\<newline>'') = ''{}''
   \<and> clean_json_output '' [1] '' = ''[1]''
   \<and> clean_json_output (''```'' @ ''json'' @ ''\<newline>'' @ ''{}'') = ''{}''"
proof -
  have t: "list_all is_letter ''json''"
    by (simp add: is_letter_def)
  have w: "list_all is_space '' ''" "list_all is_space ''\<newline>''"
    by (simp_all add: is_space_def)
  have u: "\<not> startswith (strip '' [1] '') ''```''"
    by (simp add: startswith_def strip_def lstrip_def rstrip_def is_space_def)
  have r: "''{}'' \<noteq> []" "\<not> is_space (last ''{}'')" "\<not> endswith ''{}'' ''```''"
    by (simp_all add: is_space_def endswith_def)
  have s1: "strip ''{} \<newline>'' = ''{}''" and s2: "strip '' [1] '' = ''[1]''"
    and s3: "strip ''{}'' = ''{}''"
    by (simp_all add: strip_def lstrip_def rstrip_def is_space_def)
  from clean_json_output_fence_cases [of "''json''" "'' ''" "''\<newline>''" "''{} \<newline>''" "'' [1] ''" "''{}''"]
  show ?thesis
    using t w u r s1 s2 s3 by simp
qed

text \<open>
  Claim C3 as stated fails: this text has a leading fence line and no closing fence, so
  it is not wrapped in a fence, and the result is not the text trimmed.
\<close>

theorem clean_json_output_counterexample:
  "\<not> endswith (strip ''```json\<newline>{}'') ''```''
   \<and> strip ''```json\<newline>{}'' = ''```json\<newline>{}''
   \<and> clean_json_output ''```json\<newline>{}'' = ''{}''"
  by (simp add: clean_json_output_def sub_fence_def startswith_def endswith_def strip_def
      lstrip_def rstrip_def is_space_def is_letter_def)

section \<open>The stages of a run\<close>

lemma generate_reply: "generate E prompt st = (reply E (length st) prompt, st @ [prompt])"
  by (simp add: generate_def reply_def split: sum.splits)

lemma plan_roadmap_stages:
  "plan_roadmap E user_data persona st =
     (let (topics, st1) = think_stage E user_data persona st;
          (structure, st2) = structure_stage E topics st1;
          (activities, st3) = activities_stage E user_data persona structure st2
      in (assemble user_data persona structure activities, st3))"
  by (simp add: plan_roadmap_def think_stage_def structure_stage_def activities_stage_def
      assemble_def Let_def generate_reply split: option.splits)

lemma think_stage_eq:
  "think_stage E user_data persona st =
     ((case json_loads E (clean_json_output
              (reply E (length st) (plan_roadmap_think_prompt E user_data persona))) of
         Some v \<Rightarrow> v | None \<Rightarrow> JArr []),
      st @ [plan_roadmap_think_prompt E user_data persona])"
  by (simp add: think_stage_def generate_reply split: option.splits)

lemma structure_stage_eq:
  "structure_stage E topics st =
     ((case json_loads E (clean_json_output
              (reply E (length st) (plan_roadmap_plan_prompt E topics))) of
         Some v \<Rightarrow> v | None \<Rightarrow> JObj []),
      st @ [plan_roadmap_plan_prompt E topics])"
  by (simp add: structure_stage_def generate_reply split: option.splits)

lemma activities_stage_eq:
  "activities_stage E user_data persona structure st =
     ((case json_loads E (clean_json_output
              (reply E (length st) (plan_roadmap_activities_prompt E user_data persona structure))) of
         Some v \<Rightarrow> v | None \<Rightarrow> JObj []),
      st @ [plan_roadmap_activities_prompt E user_data persona structure])"
  by (simp add: activities_stage_def generate_reply split: option.splits)

lemma extract_user_data_eq:
  "extract_user_data E r i g st =
     ((case json_loads E (clean_json_output
              (reply E (length st) (extract_user_data_prompt r i g))) of
         Some v \<Rightarrow> v | None \<Rightarrow> JObj []),
      st @ [extract_user_data_prompt r i g])"
  by (simp add: extract_user_data_def generate_reply split: option.splits)

lemma classify_persona_eq:
  "classify_persona E user_data st =
     ((case json_loads E (clean_json_output
              (reply E (length st) (classify_persona_prompt E user_data))) of
         Some (JObj kvs) \<Rightarrow>
           (case map_of kvs ''persona'' of Some v \<Rightarrow> v | None \<Rightarrow> JStr [],
            case map_of kvs ''justification'' of Some v \<Rightarrow> v | None \<Rightarrow> JStr [])
       | _ \<Rightarrow> (JStr [], JStr [])),
      st @ [classify_persona_prompt E user_data])"
  by (simp add: classify_persona_def generate_reply py_get_def and_then_def
      split: option.splits json.splits)

lemma identify_topics_eq:
  "identify_topics E user_data st =
     ((case json_loads E (clean_json_output
              (reply E (length st) (identify_topics_prompt E user_data))) of
         Some v \<Rightarrow> v | None \<Rightarrow> JArr []),
      st @ [identify_topics_prompt E user_data])"
  by (simp add: identify_topics_def generate_reply split: option.splits)

lemma assemble_defaults:
  "assemble (JObj kvs) persona (JObj []) (JObj []) =
     Inr (JObj
       [(''user_profile_summary'', JObj
           [(''persona'', persona),
            (''domain'', case map_of kvs ''domain'' of Some v \<Rightarrow> v | None \<Rightarrow> JStr []),
            (''goals'', case map_of kvs ''goals'' of Some v \<Rightarrow> v | None \<Rightarrow> JArr []),
            (''weekly_availability_hours'',
               case map_of kvs ''weekly_availability_hours'' of Some v \<Rightarrow> v | None \<Rightarrow> JInt 0)]),
        (''roadmap'', JObj
           [(''title'', JStr (''Personalized GenAI Roadmap for '' @ py_str persona)),
            (''duration_days'', JInt 30),
            (''total_estimated_hours'', JInt 0),
            (''levels'', JArr [])])])"
  by (simp add: assemble_def py_get_def and_then_def)

section \<open>A run on empty responses\<close>

lemma clean_json_output_Nil: "clean_json_output [] = []"
  by (simp add: clean_json_output_def strip_Nil startswith_def)

lemma py_str_30: "py_str (JInt 30) = ''30''" and py_str_0: "py_str (JInt 0) = ''0''"
  by code_simp+

lemma py_str_JStr: "py_str (JStr s) = s"
  by (simp add: py_str_def)

lemma format_table_no_levels:
  "format_table (JObj
       [(''user_profile_summary'', summary),
        (''roadmap'', JObj
           [(''title'', JStr title),
            (''duration_days'', JInt 30),
            (''total_estimated_hours'', JInt 0),
            (''levels'', JArr [])])])
   = Inr (''\<newline>'' @ replicate 60 (CHR ''='') @ ''\<newline>''
          @ title @ ''\<newline>''
          @ ''Duration: 30 days | Total Hours: 0'' @ ''\<newline>''
          @ replicate 60 (CHR ''='') @ ''\<newline>''
          @ replicate 60 (CHR ''='') @ ''\<newline>'')"
  by (simp add: format_table_def py_get_def py_iter_def and_then_def py_str_30 py_str_0
      py_str_JStr)

text \<open>
  Claim C2. Every model call returns the empty string, and the empty string is not JSON
  (\<^verbatim>\<open>json.loads('')\<close> raises). Then \<open>plan_roadmap\<close>, called on a dictionary, returns a
  record whose \<open>duration_days\<close> is 30, whose \<open>total_estimated_hours\<close> is 0 and whose
  \<open>levels\<close> is the empty list, and \<open>format_table\<close> renders that record as the header
  block alone: the separator, the title, the duration and hours line and the two closing
  separators, with no level section. The whole pipeline \<open>generate_roadmap\<close> (without
  PDF) returns that record, for the empty profile and the empty persona, and its table.
\<close>

theorem empty_responses_roadmap:
  assumes empty: "\<forall>n prompt. reply E n prompt = []"
    and not_json: "json_loads E [] = None"
    and dict: "is_dict user_data"
  shows "(\<exists>rd. fst (plan_roadmap E user_data persona st) = Inr rd
      \<and> roadmap_field ''duration_days'' rd = Some (JInt 30)
      \<and> roadmap_field ''total_estimated_hours'' rd = Some (JInt 0)
      \<and> roadmap_field ''levels'' rd = Some (JArr [])
      \<and> format_table rd =
          Inr (''\<newline>'' @ replicate 60 (CHR ''='') @ ''\<newline>''
               @ ''Personalized GenAI Roadmap for '' @ py_str persona @ ''\<newline>''
               @ ''Duration: 30 days | Total Hours: 0'' @ ''\<newline>''
               @ replicate 60 (CHR ''='') @ ''\<newline>''
               @ replicate 60 (CHR ''='') @ ''\<newline>''))
    \<and> (\<exists>rd. fst (generate_roadmap E H resume_text interview_summary_text goals_text False st) =
          Inr (rd,
               ''\<newline>'' @ replicate 60 (CHR ''='') @ ''\<newline>''
               @ ''Personalized GenAI Roadmap for '' @ ''\<newline>''
               @ ''Duration: 30 days | Total Hours: 0'' @ ''\<newline>''
               @ replicate 60 (CHR ''='') @ ''\<newline>''
               @ replicate 60 (CHR ''='') @ ''\<newline>'',
               None)
      \<and> roadmap_field ''duration_days'' rd = Some (JInt 30)
      \<and> roadmap_field ''total_estimated_hours'' rd = Some (JInt 0)
      \<and> roadmap_field ''levels'' rd = Some (JArr []))"
proof (intro conjI)
  have fail: "json_loads E (clean_json_output (reply E n p)) = None" for n p
    using empty not_json by (simp add: clean_json_output_Nil)
  have plan: "fst (plan_roadmap E ud p st') = assemble ud p (JObj []) (JObj [])" for ud p st'
    by (simp add: plan_roadmap_stages think_stage_eq structure_stage_eq activities_stage_eq fail)
  from dict obtain kvs where kvs: "user_data = JObj kvs"
    by (cases user_data) (simp_all add: is_dict_def)
  show "\<exists>rd. fst (plan_roadmap E user_data persona st) = Inr rd
      \<and> roadmap_field ''duration_days'' rd = Some (JInt 30)
      \<and> roadmap_field ''total_estimated_hours'' rd = Some (JInt 0)
      \<and> roadmap_field ''levels'' rd = Some (JArr [])
      \<and> format_table rd =
          Inr (''\<newline>'' @ replicate 60 (CHR ''='') @ ''\<newline>''
               @ ''Personalized GenAI Roadmap for '' @ py_str persona @ ''\<newline>''
               @ ''Duration: 30 days | Total Hours: 0'' @ ''\<newline>''
               @ replicate 60 (CHR ''='') @ ''\<newline>''
               @ replicate 60 (CHR ''='') @ ''\<newline>'')"
    unfolding plan kvs assemble_defaults
    by (simp add: format_table_no_levels roadmap_field_def field_def)
  have ex: "fst (extract_user_data E resume_text interview_summary_text goals_text st) = JObj []"
    by (simp add: extract_user_data_eq fail)
  have cl: "fst (classify_persona E ud st') = (JStr [], JStr [])" for ud st'
    by (simp add: classify_persona_eq fail)
  have run: "fst (generate_roadmap E H resume_text interview_summary_text goals_text False st) =
      and_then (assemble (JObj []) (JStr []) (JObj []) (JObj [])) (\<lambda>roadmap_data.
        and_then (format_table roadmap_data) (\<lambda>roadmap_table.
          Inr (roadmap_data, roadmap_table, None)))"
    using ex cl plan
    by (simp add: generate_roadmap_def Let_def split_beta)
  show "\<exists>rd. fst (generate_roadmap E H resume_text interview_summary_text goals_text False st) =
          Inr (rd,
               ''\<newline>'' @ replicate 60 (CHR ''='') @ ''\<newline>''
               @ ''Personalized GenAI Roadmap for '' @ ''\<newline>''
               @ ''Duration: 30 days | Total Hours: 0'' @ ''\<newline>''
               @ replicate 60 (CHR ''='') @ ''\<newline>''
               @ replicate 60 (CHR ''='') @ ''\<newline>'',
               None)
      \<and> roadmap_field ''duration_days'' rd = Some (JInt 30)
      \<and> roadmap_field ''total_estimated_hours'' rd = Some (JInt 0)
      \<and> roadmap_field ''levels'' rd = Some (JArr [])"
    unfolding run assemble_defaults
    by (simp add: and_then_def format_table_no_levels roadmap_field_def field_def py_str_JStr)
qed

theorem empty_responses_roadmap_witness:
  "\<exists>rd. fst (generate_roadmap env_silent host_plain ''5 years backend, Python advanced'' ''prefers hands-on, 8 hrs/week'' ''integrate GenAI into workflow'' False []) =
          Inr (rd,
               ''\<newline>'' @ replicate 60 (CHR ''='') @ ''\<newline>''
               @ ''Personalized GenAI Roadmap for '' @ ''\<newline>''
               @ ''Duration: 30 days | Total Hours: 0'' @ ''\<newline>''
               @ replicate 60 (CHR ''='') @ ''\<newline>''
               @ replicate 60 (CHR ''='') @ ''\<newline>'',
               None)
      \<and> roadmap_field ''duration_days'' rd = Some (JInt 30)
      \<and> roadmap_field ''total_estimated_hours'' rd = Some (JInt 0)
      \<and> roadmap_field ''levels'' rd = Some (JArr [])"
proof -
  have h1: "\<forall>n prompt. reply env_silent n prompt = []"
    by (simp add: reply_def env_silent_def)
  have "loads_ref [] = None"
    by code_simp
  then have h2: "json_loads env_silent [] = None"
    by (simp add: env_silent_def)
  have h3: "is_dict (JObj [])"
    by (simp add: is_dict_def)
  from empty_responses_roadmap [OF h1 h2 h3, of "JStr []" "[]" host_plain
      "''5 years backend, Python advanced''" "''prefers hands-on, 8 hrs/week''"
      "''integrate GenAI into workflow''"]
  show ?thesis by blast
qed

section \<open>Trace variants\<close>

lemma trace_prompts_same:
  "extract_user_data_trace_prompt r i g = extract_user_data_prompt r i g"
  "classify_persona_trace_prompt E user_data = classify_persona_prompt E user_data"
  "identify_topics_trace_prompt E user_data = identify_topics_prompt E user_data"
  "plan_roadmap_trace_think_prompt E user_data persona = plan_roadmap_think_prompt E user_data persona"
  "plan_roadmap_trace_think_prompt_given E user_data persona = plan_roadmap_think_prompt E user_data persona"
  "plan_roadmap_trace_plan_prompt E topics = plan_roadmap_plan_prompt E topics"
  "plan_roadmap_trace_activities_prompt E user_data persona structure =
     plan_roadmap_activities_prompt E user_data persona structure"
  unfolding extract_user_data_trace_prompt_def extract_user_data_prompt_def
    classify_persona_trace_prompt_def classify_persona_prompt_def
    identify_topics_trace_prompt_def identify_topics_prompt_def
    plan_roadmap_trace_think_prompt_def plan_roadmap_trace_think_prompt_given_def
    plan_roadmap_think_prompt_def
    plan_roadmap_trace_plan_prompt_def plan_roadmap_plan_prompt_def
    plan_roadmap_trace_activities_prompt_def plan_roadmap_activities_prompt_def
  by (rule refl)+

lemma extract_user_data_trace_eq:
  "extract_user_data_trace E r i g st =
     ((fst (extract_user_data E r i g st),
       extract_user_data_prompt r i g,
       reply E (length st) (extract_user_data_prompt r i g)),
      snd (extract_user_data E r i g st))"
  by (simp add: extract_user_data_trace_def extract_user_data_eq trace_prompts_same
      generate_reply Let_def)

lemma classify_persona_trace_eq:
  "classify_persona_trace E user_data st =
     ((fst (fst (classify_persona E user_data st)),
       snd (fst (classify_persona E user_data st)),
       classify_persona_prompt E user_data,
       reply E (length st) (classify_persona_prompt E user_data)),
      snd (classify_persona E user_data st))"
  by (simp add: classify_persona_trace_def classify_persona_eq trace_prompts_same
      generate_reply py_get_def Let_def split: option.splits json.splits)

lemma identify_topics_trace_eq:
  "identify_topics_trace E user_data st =
     ((fst (identify_topics E user_data st),
       identify_topics_prompt E user_data,
       reply E (length st) (identify_topics_prompt E user_data)),
      snd (identify_topics E user_data st))"
  by (simp add: identify_topics_trace_def identify_topics_eq trace_prompts_same generate_reply
      Let_def)

lemma plan_roadmap_trace_eq:
  "plan_roadmap_trace E user_data persona JNull st =
     (let p1 = plan_roadmap_think_prompt E user_data persona;
          (topics, st1) = think_stage E user_data persona st;
          p2 = plan_roadmap_plan_prompt E topics;
          (structure, st2) = structure_stage E topics st1;
          p3 = plan_roadmap_activities_prompt E user_data persona structure
      in (and_then (fst (plan_roadmap E user_data persona st)) (\<lambda>rd.
            Inr (rd,
                 [(''topics'', p1), (''structure'', p2), (''activities'', p3)],
                 [(''topics'', reply E (length st) p1),
                  (''structure'', reply E (length st + 1) p2),
                  (''activities'', reply E (length st + 2) p3)])),
          st @ [p1, p2, p3]))"
  by (simp add: plan_roadmap_trace_def plan_roadmap_stages think_stage_eq structure_stage_eq
      activities_stage_eq assemble_def trace_prompts_same generate_reply Let_def)

lemma plan_roadmap_sent:
  "snd (plan_roadmap E user_data persona st) =
     (let p1 = plan_roadmap_think_prompt E user_data persona;
          (topics, st1) = think_stage E user_data persona st;
          p2 = plan_roadmap_plan_prompt E topics;
          (structure, st2) = structure_stage E topics st1;
          p3 = plan_roadmap_activities_prompt E user_data persona structure
      in st @ [p1, p2, p3])"
  by (simp add: plan_roadmap_stages think_stage_eq structure_stage_eq activities_stage_eq
      Let_def)

lemma plan_roadmap_trace_result:
  "map_sum id fst (fst (plan_roadmap_trace E user_data persona JNull st)) =
     fst (plan_roadmap E user_data persona st)"
  by (cases "fst (plan_roadmap E user_data persona st)")
     (simp_all add: plan_roadmap_trace_eq Let_def split_beta and_then_def)

lemma plan_roadmap_trace_sent:
  "snd (plan_roadmap_trace E user_data persona JNull st) =
     snd (plan_roadmap E user_data persona st)"
  by (simp add: plan_roadmap_trace_eq plan_roadmap_sent Let_def split_beta)

lemma plan_roadmap_trace_record:
  assumes "fst (plan_roadmap_trace E user_data persona JNull st) = Inr (rd, prompts, responses)"
  shows "map fst prompts = [''topics'', ''structure'', ''activities'']
    \<and> map fst responses = [''topics'', ''structure'', ''activities'']
    \<and> snd (plan_roadmap_trace E user_data persona JNull st) = st @ map snd prompts
    \<and> map snd responses = map (\<lambda>k. reply E (length st + k) (map snd prompts ! k)) [0, 1, 2]"
  using assms
  by (cases "fst (plan_roadmap E user_data persona st)")
     (auto simp: plan_roadmap_trace_eq Let_def split_beta and_then_def)

lemma reply_scripted:
  "reply (env_scripted responses) n prompt = (if n < length responses then strip (responses ! n) else [])"
  by (simp add: reply_def env_scripted_def)

lemma json_loads_scripted: "json_loads (env_scripted responses) = loads_ref"
  by (simp add: env_scripted_def)

text \<open>
  Claim C7. Each trace variant returns the parsed result of its plain counterpart, run
  from the same state against the same model, and leaves the same list of requests
  behind. The prompt it returns is the one prompt it sent, and the raw response it
  returns is what \<open>generate\<close> returned for that prompt. For \<open>plan_roadmap_trace\<close> with no
  topics given (\<open>JNull\<close>) the roadmap record, or the exception, is that of
  \<open>plan_roadmap\<close>; its prompts, under the keys topics, structure and activities, are the
  three prompts sent, in that order, and its responses are the three raw responses.
\<close>

theorem trace_variants_agree:
  "(let t = extract_user_data_trace E r i g st;
        parsed = fst (fst t); prompt = fst (snd (fst t)); raw = snd (snd (fst t))
    in parsed = fst (extract_user_data E r i g st)
       \<and> snd t = snd (extract_user_data E r i g st)
       \<and> snd t = st @ [prompt]
       \<and> raw = reply E (length st) prompt)
   \<and> (let t = classify_persona_trace E user_data st;
            parsed = (fst (fst t), fst (snd (fst t)));
            prompt = fst (snd (snd (fst t))); raw = snd (snd (snd (fst t)))
       in parsed = fst (classify_persona E user_data st)
          \<and> snd t = snd (classify_persona E user_data st)
          \<and> snd t = st @ [prompt]
          \<and> raw = reply E (length st) prompt)
   \<and> (let t = identify_topics_trace E user_data st;
            parsed = fst (fst t); prompt = fst (snd (fst t)); raw = snd (snd (fst t))
       in parsed = fst (identify_topics E user_data st)
          \<and> snd t = snd (identify_topics E user_data st)
          \<and> snd t = st @ [prompt]
          \<and> raw = reply E (length st) prompt)
   \<and> (let t = plan_roadmap_trace E user_data persona JNull st
       in map_sum id fst (fst t) = fst (plan_roadmap E user_data persona st)
          \<and> snd t = snd (plan_roadmap E user_data persona st)
          \<and> (\<forall>rd prompts responses. fst t = Inr (rd, prompts, responses) \<longrightarrow>
                map fst prompts = [''topics'', ''structure'', ''activities'']
                \<and> map fst responses = [''topics'', ''structure'', ''activities'']
                \<and> snd t = st @ map snd prompts
                \<and> map snd responses =
                    map (\<lambda>k. reply E (length st + k) (map snd prompts ! k)) [0, 1, 2]))"
proof -
  have a: "let t = extract_user_data_trace E r i g st;
        parsed = fst (fst t); prompt = fst (snd (fst t)); raw = snd (snd (fst t))
    in parsed = fst (extract_user_data E r i g st)
       \<and> snd t = snd (extract_user_data E r i g st)
       \<and> snd t = st @ [prompt]
       \<and> raw = reply E (length st) prompt"
    by (simp add: extract_user_data_trace_eq Let_def) (simp add: extract_user_data_eq)
  have b: "let t = classify_persona_trace E user_data st;
            parsed = (fst (fst t), fst (snd (fst t)));
            prompt = fst (snd (snd (fst t))); raw = snd (snd (snd (fst t)))
       in parsed = fst (classify_persona E user_data st)
          \<and> snd t = snd (classify_persona E user_data st)
          \<and> snd t = st @ [prompt]
          \<and> raw = reply E (length st) prompt"
    by (simp add: classify_persona_trace_eq Let_def) (simp add: classify_persona_eq)
  have c: "let t = identify_topics_trace E user_data st;
            parsed = fst (fst t); prompt = fst (snd (fst t)); raw = snd (snd (fst t))
       in parsed = fst (identify_topics E user_data st)
          \<and> snd t = snd (identify_topics E user_data st)
          \<and> snd t = st @ [prompt]
          \<and> raw = reply E (length st) prompt"
    by (simp add: identify_topics_trace_eq Let_def) (simp add: identify_topics_eq)
  have d: "let t = plan_roadmap_trace E user_data persona JNull st
       in map_sum id fst (fst t) = fst (plan_roadmap E user_data persona st)
          \<and> snd t = snd (plan_roadmap E user_data persona st)
          \<and> (\<forall>rd prompts responses. fst t = Inr (rd, prompts, responses) \<longrightarrow>
                map fst prompts = [''topics'', ''structure'', ''activities'']
                \<and> map fst responses = [''topics'', ''structure'', ''activities'']
                \<and> snd t = st @ map snd prompts
                \<and> map snd responses =
                    map (\<lambda>k. reply E (length st + k) (map snd prompts ! k)) [0, 1, 2])"
    unfolding Let_def
    using plan_roadmap_trace_result [of E user_data persona st]
      plan_roadmap_trace_sent [of E user_data persona st]
      plan_roadmap_trace_record [of E user_data persona st]
    by blast
  from a b c d show ?thesis by (rule conjI [OF _ conjI [OF _ conjI]])
qed

theorem trace_variants_agree_witness:
  "\<exists>rd prompts responses.
      fst (plan_roadmap_trace (env_scripted [''[]'', ''{}'', ''{}'']) (JObj []) (JStr ''College student'') JNull [])
        = Inr (rd, prompts, responses)
      \<and> fst (plan_roadmap (env_scripted [''[]'', ''{}'', ''{}'']) (JObj []) (JStr ''College student'') [])
        = Inr rd
      \<and> snd (plan_roadmap_trace (env_scripted [''[]'', ''{}'', ''{}'']) (JObj []) (JStr ''College student'') JNull [])
        = map snd prompts
      \<and> map snd responses = [''[]'', ''{}'', ''{}'']"
proof -
  let ?E = "env_scripted [''[]'', ''{}'', ''{}'']"
  let ?p = "JStr ''College student''"
  let ?t = "plan_roadmap_trace ?E (JObj []) ?p JNull []"
  have r: "reply ?E 0 q = ''[]''" "reply ?E (Suc 0) q = ''{}''" "reply ?E (Suc (Suc 0)) q = ''{}''"
    for q
    by (simp_all add: reply_scripted strip_def lstrip_def rstrip_def is_space_def)
  have l: "loads_ref (clean_json_output ''[]'') = Some (JArr [])"
    "loads_ref (clean_json_output ''{}'') = Some (JObj [])"
    by code_simp+
  note j = json_loads_scripted
  have "fst (plan_roadmap ?E (JObj []) ?p []) = assemble (JObj []) ?p (JObj []) (JObj [])"
    by (simp add: plan_roadmap_stages think_stage_eq structure_stage_eq activities_stage_eq
        r l j)
  then obtain rd where rd: "fst (plan_roadmap ?E (JObj []) ?p []) = Inr rd"
    by (simp add: assemble_defaults)
  note T = trace_variants_agree [of ?E "[]" "[]" "[]" "[]" "JObj []" ?p, unfolded Let_def]
  note P = T [THEN conjunct2, THEN conjunct2, THEN conjunct2]
  from P [THEN conjunct1] rd have "map_sum id fst (fst ?t) = Inr rd"
    by simp
  then obtain prompts responses where t: "fst ?t = Inr (rd, prompts, responses)"
    by (cases "fst ?t") auto
  from P [THEN conjunct2, THEN conjunct2, rule_format, OF t]
  have "snd ?t = map snd prompts"
    and "map snd responses = map (\<lambda>k. reply ?E k (map snd prompts ! k)) [0, 1, 2]"
    by simp_all
  with rd t r show ?thesis
    by (simp add: numeral_2_eq_2)
qed

section \<open>Responses that do not parse\<close>

lemma assemble_of_dicts:
  "assemble (JObj u) persona (JObj s) (JObj a) =
     Inr (JObj
       [(''user_profile_summary'', JObj
           [(''persona'', persona),
            (''domain'', case map_of u ''domain'' of Some v \<Rightarrow> v | None \<Rightarrow> JStr []),
            (''goals'', case map_of u ''goals'' of Some v \<Rightarrow> v | None \<Rightarrow> JArr []),
            (''weekly_availability_hours'',
               case map_of u ''weekly_availability_hours'' of Some v \<Rightarrow> v | None \<Rightarrow> JInt 0)]),
        (''roadmap'', JObj
           [(''title'', JStr (''Personalized GenAI Roadmap for '' @ py_str persona)),
            (''duration_days'', case map_of s ''duration_days'' of Some v \<Rightarrow> v | None \<Rightarrow> JInt 30),
            (''total_estimated_hours'',
               case map_of a ''total_estimated_hours'' of Some v \<Rightarrow> v | None \<Rightarrow> JInt 0),
            (''levels'', case map_of a ''levels'' of Some v \<Rightarrow> v | None \<Rightarrow> JArr [])])])"
  by (simp add: assemble_def py_get_def and_then_def)

lemma not_isl_assemble:
  "\<not> isl (assemble user_data persona s a) \<longleftrightarrow> is_dict user_data \<and> is_dict s \<and> is_dict a"
proof (cases "is_dict user_data \<and> is_dict s \<and> is_dict a")
  case True
  then obtain u s' a' where "user_data = JObj u" "s = JObj s'" "a = JObj a'"
    by (cases user_data; cases s; cases a) (simp_all add: is_dict_def)
  with True show ?thesis
    by (simp add: assemble_def py_get_def and_then_def)
next
  case False
  then consider "\<not> is_dict user_data" | "is_dict user_data" "\<not> is_dict s"
    | "is_dict user_data" "is_dict s" "\<not> is_dict a"
    by blast
  then have "isl (assemble user_data persona s a)"
  proof cases
    case 1
    then show ?thesis
      by (cases user_data) (simp_all add: assemble_def py_get_def and_then_def is_dict_def)
  next
    case 2
    then show ?thesis
      by (cases user_data; cases s) (simp_all add: assemble_def py_get_def and_then_def is_dict_def)
  next
    case 3
    then show ?thesis
      by (cases user_data; cases s; cases a)
        (simp_all add: assemble_def py_get_def and_then_def is_dict_def)
  qed
  with False show ?thesis by simp
qed

lemma assemble_Inr_fields:
  assumes "assemble user_data persona s a = Inr rd"
  shows "roadmap_field ''duration_days'' rd =
      Some (case field ''duration_days'' s of Some v \<Rightarrow> v | None \<Rightarrow> JInt 30)"
    and "roadmap_field ''total_estimated_hours'' rd =
      Some (case field ''total_estimated_hours'' a of Some v \<Rightarrow> v | None \<Rightarrow> JInt 0)"
    and "roadmap_field ''levels'' rd =
      Some (case field ''levels'' a of Some v \<Rightarrow> v | None \<Rightarrow> JArr [])"
proof -
  from assms have "\<not> isl (assemble user_data persona s a)" by simp
  then obtain u s' a' where d: "user_data = JObj u" "s = JObj s'" "a = JObj a'"
    unfolding not_isl_assemble
    by (cases user_data; cases s; cases a) (simp_all add: is_dict_def)
  from assms have rd: "rd = projr (assemble (JObj u) persona (JObj s') (JObj a'))"
    by (simp add: d)
  show "roadmap_field ''duration_days'' rd =
      Some (case field ''duration_days'' s of Some v \<Rightarrow> v | None \<Rightarrow> JInt 30)"
    and "roadmap_field ''total_estimated_hours'' rd =
      Some (case field ''total_estimated_hours'' a of Some v \<Rightarrow> v | None \<Rightarrow> JInt 0)"
    and "roadmap_field ''levels'' rd =
      Some (case field ''levels'' a of Some v \<Rightarrow> v | None \<Rightarrow> JArr [])"
    unfolding rd assemble_of_dicts d
    by (simp_all add: roadmap_field_def field_def split: option.splits)
qed

lemma plan_roadmap_run:
  "plan_roadmap E user_data persona st =
     (let n = length st;
          p1 = plan_roadmap_think_prompt E user_data persona;
          topics = (case json_loads E (clean_json_output (reply E n p1)) of
                      Some v \<Rightarrow> v | None \<Rightarrow> JArr []);
          p2 = plan_roadmap_plan_prompt E topics;
          s = (case json_loads E (clean_json_output (reply E (n + 1) p2)) of
                 Some v \<Rightarrow> v | None \<Rightarrow> JObj []);
          p3 = plan_roadmap_activities_prompt E user_data persona s;
          a = (case json_loads E (clean_json_output (reply E (n + 2) p3)) of
                 Some v \<Rightarrow> v | None \<Rightarrow> JObj [])
      in (assemble user_data persona s a, st @ [p1, p2, p3]))"
  by (simp add: plan_roadmap_stages think_stage_eq structure_stage_eq activities_stage_eq
      Let_def)

lemma nth_sent:
  "(st @ [p1, p2, p3]) ! length st = p1"
  "(st @ [p1, p2, p3]) ! (length st + 1) = p2"
  "(st @ [p1, p2, p3]) ! (length st + 2) = p3"
  "(st @ [p1, p2, p3]) ! Suc (length st) = p2"
  "(st @ [p1, p2, p3]) ! Suc (Suc (length st)) = p3"
  by (simp_all add: nth_append)

text \<open>
  Claim C1, as amended. When the text the model call returned does not parse as JSON
  after normalization, \<open>extract_user_data\<close> returns the empty dictionary,
  \<open>classify_persona\<close> the pair of empty strings and \<open>identify_topics\<close> the empty list;
  these three return a value in every case, so no exception reaches their caller.

  In \<open>plan_roadmap\<close> the parse exception of a sub-stage is caught as well: whatever the
  three responses are, the three requests are made, in order. Here \<open>o1\<close>, \<open>o2\<close> and \<open>o3\<close>
  are the texts returned for them. When \<open>o1\<close> does not parse, the topics are the empty
  list: the second prompt is the structure prompt for \<open>[]\<close>. When \<open>o2\<close> does not parse,
  the structure is the empty dictionary: the third prompt is the activities prompt for
  \<open>{}\<close>, and the record returned has the duration 30. When \<open>o3\<close> does not parse, the
  activities are the empty dictionary: the record returned has 0 hours and no levels.

  \<open>plan_roadmap\<close> builds its record outside every \<^verbatim>\<open>try\<close> block. It returns without
  raising exactly when \<open>user_data\<close> is a dictionary and each of \<open>o2\<close> and \<open>o3\<close> either
  fails to parse or parses to a dictionary; a failed parse is never what makes it raise.
\<close>

theorem parse_failure_gives_default:
  "(json_loads E (clean_json_output (reply E (length st) (extract_user_data_prompt r i g))) = None
      \<longrightarrow> fst (extract_user_data E r i g st) = JObj [])
   \<and> (json_loads E (clean_json_output (reply E (length st) (classify_persona_prompt E user_data))) = None
      \<longrightarrow> fst (classify_persona E user_data st) = (JStr [], JStr []))
   \<and> (json_loads E (clean_json_output (reply E (length st) (identify_topics_prompt E user_data))) = None
      \<longrightarrow> fst (identify_topics E user_data st) = JArr [])
   \<and> (let sent = snd (plan_roadmap E user_data persona st);
            result = fst (plan_roadmap E user_data persona st);
            n = length st;
            o1 = reply E n (sent ! n);
            o2 = reply E (n + 1) (sent ! (n + 1));
            o3 = reply E (n + 2) (sent ! (n + 2))
        in length sent = n + 3
           \<and> take n sent = st
           \<and> sent ! n = plan_roadmap_think_prompt E user_data persona
           \<and> (json_loads E (clean_json_output o1) = None \<longrightarrow>
                 sent ! (n + 1) = plan_roadmap_plan_prompt E (JArr []))
           \<and> (json_loads E (clean_json_output o2) = None \<longrightarrow>
                 sent ! (n + 2) = plan_roadmap_activities_prompt E user_data persona (JObj [])
                 \<and> (\<forall>rd. result = Inr rd \<longrightarrow>
                       roadmap_field ''duration_days'' rd = Some (JInt 30)))
           \<and> (json_loads E (clean_json_output o3) = None \<longrightarrow>
                 (\<forall>rd. result = Inr rd \<longrightarrow>
                    roadmap_field ''total_estimated_hours'' rd = Some (JInt 0)
                    \<and> roadmap_field ''levels'' rd = Some (JArr [])))
           \<and> (\<not> isl result \<longleftrightarrow>
                 is_dict user_data
                 \<and> (case json_loads E (clean_json_output o2) of
                       None \<Rightarrow> True | Some v \<Rightarrow> is_dict v)
                 \<and> (case json_loads E (clean_json_output o3) of
                       None \<Rightarrow> True | Some v \<Rightarrow> is_dict v)))"
proof -
  have a: "json_loads E (clean_json_output (reply E (length st) (extract_user_data_prompt r i g))) = None
      \<longrightarrow> fst (extract_user_data E r i g st) = JObj []"
    by (simp add: extract_user_data_eq)
  have b: "json_loads E (clean_json_output (reply E (length st) (classify_persona_prompt E user_data))) = None
      \<longrightarrow> fst (classify_persona E user_data st) = (JStr [], JStr [])"
    by (simp add: classify_persona_eq)
  have c: "json_loads E (clean_json_output (reply E (length st) (identify_topics_prompt E user_data))) = None
      \<longrightarrow> fst (identify_topics E user_data st) = JArr []"
    by (simp add: identify_topics_eq)
  define n where "n = length st"
  define p1 where "p1 = plan_roadmap_think_prompt E user_data persona"
  define topics where "topics =
    (case json_loads E (clean_json_output (reply E n p1)) of Some v \<Rightarrow> v | None \<Rightarrow> JArr [])"
  define p2 where "p2 = plan_roadmap_plan_prompt E topics"
  define s where "s =
    (case json_loads E (clean_json_output (reply E (n + 1) p2)) of Some v \<Rightarrow> v | None \<Rightarrow> JObj [])"
  define p3 where "p3 = plan_roadmap_activities_prompt E user_data persona s"
  define act where "act =
    (case json_loads E (clean_json_output (reply E (n + 2) p3)) of Some v \<Rightarrow> v | None \<Rightarrow> JObj [])"
  have run: "plan_roadmap E user_data persona st =
      (assemble user_data persona s act, st @ [p1, p2, p3])"
    unfolding plan_roadmap_run Let_def n_def p1_def topics_def p2_def s_def p3_def act_def
    by (rule refl)
  have nth: "(st @ [p1, p2, p3]) ! n = p1" "(st @ [p1, p2, p3]) ! (n + 1) = p2"
    "(st @ [p1, p2, p3]) ! (n + 2) = p3"
    unfolding n_def by (rule nth_sent)+
  have t1: "json_loads E (clean_json_output (reply E n p1)) = None \<Longrightarrow> p2 = plan_roadmap_plan_prompt E (JArr [])"
    by (simp add: p2_def topics_def)
  have t2: "json_loads E (clean_json_output (reply E (n + 1) p2)) = None \<Longrightarrow> s = JObj []"
    by (simp add: s_def)
  have t3: "json_loads E (clean_json_output (reply E (n + 2) p3)) = None \<Longrightarrow> act = JObj []"
    by (simp add: act_def)
  have f2: "json_loads E (clean_json_output (reply E (n + 1) p2)) = None \<Longrightarrow>
      assemble user_data persona s act = Inr rd \<Longrightarrow>
      roadmap_field ''duration_days'' rd = Some (JInt 30)" for rd
    using assemble_Inr_fields(1) [of user_data persona s act rd] t2
    by (simp add: field_def)
  have f3: "json_loads E (clean_json_output (reply E (n + 2) p3)) = None \<Longrightarrow>
      assemble user_data persona s act = Inr rd \<Longrightarrow>
      roadmap_field ''total_estimated_hours'' rd = Some (JInt 0)
      \<and> roadmap_field ''levels'' rd = Some (JArr [])" for rd
    using assemble_Inr_fields(2,3) [of user_data persona s act rd] t3
    by (simp add: field_def)
  have ds: "is_dict s \<longleftrightarrow>
      (case json_loads E (clean_json_output (reply E (n + 1) p2)) of
         None \<Rightarrow> True | Some v \<Rightarrow> is_dict v)"
    by (simp add: s_def is_dict_def split: option.splits)
  have da: "is_dict act \<longleftrightarrow>
      (case json_loads E (clean_json_output (reply E (n + 2) p3)) of
         None \<Rightarrow> True | Some v \<Rightarrow> is_dict v)"
    by (simp add: act_def is_dict_def split: option.splits)
  have d: "let sent = snd (plan_roadmap E user_data persona st);
            result = fst (plan_roadmap E user_data persona st);
            n = length st;
            o1 = reply E n (sent ! n);
            o2 = reply E (n + 1) (sent ! (n + 1));
            o3 = reply E (n + 2) (sent ! (n + 2))
        in length sent = n + 3
           \<and> take n sent = st
           \<and> sent ! n = plan_roadmap_think_prompt E user_data persona
           \<and> (json_loads E (clean_json_output o1) = None \<longrightarrow>
                 sent ! (n + 1) = plan_roadmap_plan_prompt E (JArr []))
           \<and> (json_loads E (clean_json_output o2) = None \<longrightarrow>
                 sent ! (n + 2) = plan_roadmap_activities_prompt E user_data persona (JObj [])
                 \<and> (\<forall>rd. result = Inr rd \<longrightarrow>
                       roadmap_field ''duration_days'' rd = Some (JInt 30)))
           \<and> (json_loads E (clean_json_output o3) = None \<longrightarrow>
                 (\<forall>rd. result = Inr rd \<longrightarrow>
                    roadmap_field ''total_estimated_hours'' rd = Some (JInt 0)
                    \<and> roadmap_field ''levels'' rd = Some (JArr [])))
           \<and> (\<not> isl result \<longleftrightarrow>
                 is_dict user_data
                 \<and> (case json_loads E (clean_json_output o2) of
                       None \<Rightarrow> True | Some v \<Rightarrow> is_dict v)
                 \<and> (case json_loads E (clean_json_output o3) of
                       None \<Rightarrow> True | Some v \<Rightarrow> is_dict v))"
    unfolding Let_def run fst_conv snd_conv n_def [symmetric] nth
  proof (intro conjI impI allI)
    show "length (st @ [p1, p2, p3]) = n + 3" by (simp add: n_def)
    show "take n (st @ [p1, p2, p3]) = st" by (simp add: n_def)
    show "p1 = plan_roadmap_think_prompt E user_data persona" by (simp add: p1_def)
    show "p2 = plan_roadmap_plan_prompt E (JArr [])"
      if "json_loads E (clean_json_output (reply E n p1)) = None"
      using that by (rule t1)
    show "p3 = plan_roadmap_activities_prompt E user_data persona (JObj [])"
      if "json_loads E (clean_json_output (reply E (n + 1) p2)) = None"
      using t2 [OF that] by (simp add: p3_def)
    show "roadmap_field ''duration_days'' rd = Some (JInt 30)"
      if "json_loads E (clean_json_output (reply E (n + 1) p2)) = None"
        and "assemble user_data persona s act = Inr rd" for rd
      using that by (rule f2)
    show "roadmap_field ''total_estimated_hours'' rd = Some (JInt 0)"
      if "json_loads E (clean_json_output (reply E (n + 2) p3)) = None"
        and "assemble user_data persona s act = Inr rd" for rd
      using f3 [OF that] by simp
    show "roadmap_field ''levels'' rd = Some (JArr [])"
      if "json_loads E (clean_json_output (reply E (n + 2) p3)) = None"
        and "assemble user_data persona s act = Inr rd" for rd
      using f3 [OF that] by simp
    show "(\<not> isl (assemble user_data persona s act)) =
        (is_dict user_data
         \<and> (case json_loads E (clean_json_output (reply E (n + 1) p2)) of
               None \<Rightarrow> True | Some v \<Rightarrow> is_dict v)
         \<and> (case json_loads E (clean_json_output (reply E (n + 2) p3)) of
               None \<Rightarrow> True | Some v \<Rightarrow> is_dict v))"
      unfolding not_isl_assemble ds da by (rule refl)
  qed
  from a b c d show ?thesis by (intro conjI)
qed

theorem parse_failure_gives_default_witness:
  "fst (extract_user_data env_refusing ''resume'' ''interview'' ''goals'' []) = JObj []
   \<and> fst (classify_persona env_refusing (JObj []) []) = (JStr [], JStr [])
   \<and> fst (identify_topics env_refusing (JObj []) []) = JArr []
   \<and> length (snd (plan_roadmap env_refusing (JObj []) (JStr []) [])) = 3
   \<and> snd (plan_roadmap env_refusing (JObj []) (JStr []) []) ! 1 =
       plan_roadmap_plan_prompt env_refusing (JArr [])
   \<and> snd (plan_roadmap env_refusing (JObj []) (JStr []) []) ! 2 =
       plan_roadmap_activities_prompt env_refusing (JObj []) (JStr []) (JObj [])
   \<and> \<not> isl (fst (plan_roadmap env_refusing (JObj []) (JStr []) []))"
proof -
  have k: "loads_ref (clean_json_output (strip ''I am sorry, I cannot help with that.'')) = None"
    by code_simp
  have n: "json_loads env_refusing (clean_json_output (reply env_refusing m p)) = None" for m p
    by (simp add: env_refusing_def reply_def k)
  have d: "is_dict (JObj [])"
    by (simp add: is_dict_def)
  from parse_failure_gives_default [of env_refusing "[]" "''resume''" "''interview''" "''goals''"
      "JObj []" "JStr []", unfolded Let_def]
  show ?thesis
    using n d by (simp add: numeral_2_eq_2)
qed

text \<open>
  Claim C1 as stated fails for \<open>plan_roadmap\<close>. In the first run the profile is a list
  and none of the three responses parses, and \<open>plan_roadmap\<close> raises AttributeError. The
  pipeline reaches that run: the model answers the extraction request with \<^verbatim>\<open>[]\<close> and
  every later request fails. In the last run the profile is a dictionary, the topics
  response does not parse, and the structure response is the JSON list \<^verbatim>\<open>[]\<close>:
  \<open>plan_roadmap\<close> raises again.
\<close>

theorem plan_roadmap_counterexample:
  "json_loads env_refusing (clean_json_output
       (reply env_refusing 0 (snd (plan_roadmap env_refusing (JArr []) (JStr []) []) ! 0))) = None
   \<and> json_loads env_refusing (clean_json_output
       (reply env_refusing 1 (snd (plan_roadmap env_refusing (JArr []) (JStr []) []) ! 1))) = None
   \<and> json_loads env_refusing (clean_json_output
       (reply env_refusing 2 (snd (plan_roadmap env_refusing (JArr []) (JStr []) []) ! 2))) = None
   \<and> fst (plan_roadmap env_refusing (JArr []) (JStr []) []) = Inl AttributeError
   \<and> fst (generate_roadmap (env_scripted [''[]'']) host_plain
            ''resume'' ''interview'' ''goals'' False []) = Inl AttributeError
   \<and> json_loads (env_scripted [''no topics'', ''[]'', ''{}'']) (clean_json_output
       (reply (env_scripted [''no topics'', ''[]'', ''{}'']) 0
          (snd (plan_roadmap (env_scripted [''no topics'', ''[]'', ''{}'']) (JObj []) (JStr []) []) ! 0)))
       = None
   \<and> fst (plan_roadmap (env_scripted [''no topics'', ''[]'', ''{}'']) (JObj []) (JStr []) []) =
       Inl AttributeError"
proof -
  have k: "loads_ref (clean_json_output (strip ''I am sorry, I cannot help with that.'')) = None"
    "loads_ref (clean_json_output (strip ''no topics'')) = None"
    "loads_ref (clean_json_output (strip ''[]'')) = Some (JArr [])"
    "loads_ref (clean_json_output (strip ''{}'')) = Some (JObj [])"
    "loads_ref (clean_json_output []) = None"
    by code_simp+
  have n: "json_loads env_refusing (clean_json_output (reply env_refusing m p)) = None" for m p
    by (simp add: env_refusing_def reply_def k)
  have e: "assemble (JArr []) p s a = Inl AttributeError"
    "assemble (JObj []) p (JArr []) a = Inl AttributeError" for p s a
    by (simp_all add: assemble_def py_get_def and_then_def)
  have r1: "fst (plan_roadmap env_refusing (JArr []) (JStr []) []) = Inl AttributeError"
    by (simp add: plan_roadmap_run Let_def e)
  have r2: "fst (generate_roadmap (env_scripted [''[]'']) host_plain
            ''resume'' ''interview'' ''goals'' False []) = Inl AttributeError"
    by (simp add: generate_roadmap_def extract_user_data_eq classify_persona_eq plan_roadmap_run
        Let_def split_beta reply_scripted json_loads_scripted k e and_then_def)
  have r3: "fst (plan_roadmap (env_scripted [''no topics'', ''[]'', ''{}'']) (JObj []) (JStr []) []) =
       Inl AttributeError"
    by (simp add: plan_roadmap_run Let_def reply_scripted json_loads_scripted k e)
  have r4: "json_loads (env_scripted [''no topics'', ''[]'', ''{}'']) (clean_json_output
       (reply (env_scripted [''no topics'', ''[]'', ''{}'']) 0 p)) = None" for p
    by (simp add: reply_scripted json_loads_scripted k)
  from n r1 r2 r3 r4 show ?thesis
    by simp
qed

section \<open>The model client\<close>

text \<open>
  Claim C6, as amended. \<open>generate\<close> makes one request. When the request succeeds it
  returns the response text trimmed of surrounding whitespace; when the request fails,
  whatever the failure, it returns the empty string. It returns a value in both cases
  (it does not raise), and the failed request is not repeated: the list of requests grows
  by this one prompt.
\<close>

theorem generate_outcomes:
  "(generate_content E (length st) prompt = Inr text \<longrightarrow>
      generate E prompt st = (strip text, st @ [prompt]))
   \<and> (generate_content E (length st) prompt = Inl e \<longrightarrow>
      generate E prompt st = ([], st @ [prompt]))"
  by (simp add: generate_def)

theorem generate_outcomes_witness:
  "generate (env_scripted ['' {} '']) ''hello'' [] = (''{}'', [''hello''])
   \<and> generate env_silent ''hello'' [] = ([], [''hello''])"
proof -
  have a: "generate_content (env_scripted ['' {} '']) (length ([] :: string list)) ''hello'' = Inr '' {} ''"
    by (simp add: env_scripted_def)
  have b: "generate_content env_silent (length ([] :: string list)) ''hello'' = Inl QuotaError"
    by (simp add: env_silent_def)
  have s: "strip '' {} '' = ''{}''"
    by (simp add: strip_def lstrip_def rstrip_def is_space_def)
  from generate_outcomes [of "env_scripted ['' {} '']" "[]" "''hello''" "'' {} ''" QuotaError]
    generate_outcomes [of env_silent "[]" "''hello''" "[]" QuotaError]
  show ?thesis
    using a b s by simp
qed

text \<open>
  Claim C6 as stated fails: the request succeeds with a text that has a space on each
  side, and what \<open>generate\<close> returns is not that text.
\<close>

theorem generate_counterexample:
  "generate_content (env_scripted ['' {} '']) 0 ''hello'' = Inr '' {} ''
   \<and> fst (generate (env_scripted ['' {} '']) ''hello'' []) = ''{}''
   \<and> fst (generate (env_scripted ['' {} '']) ''hello'' []) \<noteq> '' {} ''"
  by (simp add: generate_def env_scripted_def strip_def lstrip_def rstrip_def is_space_def)

section \<open>Parsed results\<close>

lemma clean_json_output_strip: "clean_json_output (strip s) = clean_json_output s"
  by (simp add: clean_json_output_def strip_idem)

lemma carries_normalized:
  assumes "generate_content E n prompt = Inr text" and "carries E text wrapping v"
  shows "json_loads E (clean_json_output (reply E n prompt)) = Some v"
proof -
  from assms(1) have r: "reply E n prompt = strip text"
    by (simp add: reply_def)
  show ?thesis
  proof (cases wrapping)
    case None
    with assms(2) have "\<not> startswith (strip text) ''```''" and "json_loads E (strip text) = Some v"
      by (simp_all add: carries_def)
    then show ?thesis
      by (simp add: r clean_json_output_strip clean_json_output_unfenced)
  next
    case (Some w)
    obtain ws1 tag inner ws2 where w: "w = (ws1, tag, inner, ws2)"
      by (cases w) blast
    from assms(2) Some w
    have t: "text = ws1 @ (''```'' @ tag @ ''\<newline>'' @ inner @ ''```'') @ ws2"
      and sp: "list_all is_space ws1" "list_all is_space ws2" and tg: "list_all is_letter tag"
      and j: "json_loads E (strip inner) = Some v"
      by (simp_all add: carries_def)
    have "clean_json_output text = strip inner"
      unfolding t using tg sp by (rule clean_json_output_fenced)
    with j show ?thesis
      by (simp add: r clean_json_output_strip)
  qed
qed

text \<open>
  Claim C4, as amended. A response that carries a JSON value, as a fenced block or as the
  text itself, is normalized and parsed to that value (the first part). A stage whose
  normalized response parses takes the parsed value as its result: \<open>extract_user_data\<close>
  and \<open>identify_topics\<close> return it, so \<open>extract_user_data\<close> returns exactly the value the
  response carries (the second part). In \<open>plan_roadmap\<close> the value parsed from the topics
  response \<open>o1\<close> is what the structure prompt is built from, the value parsed from \<open>o2\<close>
  is what the activities prompt is built from and what gives the record its duration,
  and the value parsed from \<open>o3\<close> gives the record its hours and its levels.
  \<open>classify_persona\<close> does not return the parsed value: from a dictionary it returns the
  values under the keys persona and justification (the empty string for a key that is
  missing), and from any other JSON value the pair of empty strings.
\<close>

theorem parse_success_results:
  "(generate_content E m prompt = Inr text \<and> carries E text wrapping v \<longrightarrow>
      json_loads E (clean_json_output (reply E m prompt)) = Some v)
   \<and> (generate_content E (length st) (extract_user_data_prompt r i g) = Inr text
       \<and> carries E text wrapping v \<longrightarrow>
      fst (extract_user_data E r i g st) = v)
   \<and> (json_loads E (clean_json_output (reply E (length st) (extract_user_data_prompt r i g))) = Some v
      \<longrightarrow> fst (extract_user_data E r i g st) = v)
   \<and> (json_loads E (clean_json_output (reply E (length st) (identify_topics_prompt E user_data))) = Some v
      \<longrightarrow> fst (identify_topics E user_data st) = v)
   \<and> (let sent = snd (plan_roadmap E user_data persona st);
            result = fst (plan_roadmap E user_data persona st);
            n = length st;
            o1 = reply E n (sent ! n);
            o2 = reply E (n + 1) (sent ! (n + 1));
            o3 = reply E (n + 2) (sent ! (n + 2))
        in (json_loads E (clean_json_output o1) = Some v \<longrightarrow>
              sent ! (n + 1) = plan_roadmap_plan_prompt E v)
           \<and> (json_loads E (clean_json_output o2) = Some v \<longrightarrow>
                 sent ! (n + 2) = plan_roadmap_activities_prompt E user_data persona v
                 \<and> (\<forall>rd. result = Inr rd \<longrightarrow>
                       roadmap_field ''duration_days'' rd =
                         Some (get_or v ''duration_days'' (JInt 30))))
           \<and> (json_loads E (clean_json_output o3) = Some v \<longrightarrow>
                 (\<forall>rd. result = Inr rd \<longrightarrow>
                    roadmap_field ''total_estimated_hours'' rd =
                      Some (get_or v ''total_estimated_hours'' (JInt 0))
                    \<and> roadmap_field ''levels'' rd = Some (get_or v ''levels'' (JArr [])))))
   \<and> (json_loads E (clean_json_output (reply E (length st) (classify_persona_prompt E user_data))) = Some v
      \<longrightarrow> fst (classify_persona E user_data st) =
            (if is_dict v
             then (get_or v ''persona'' (JStr []), get_or v ''justification'' (JStr []))
             else (JStr [], JStr [])))"
proof -
  have a: "generate_content E m prompt = Inr text \<and> carries E text wrapping v \<longrightarrow>
      json_loads E (clean_json_output (reply E m prompt)) = Some v"
    using carries_normalized by blast
  have c: "json_loads E (clean_json_output (reply E (length st) (extract_user_data_prompt r i g))) = Some v
      \<longrightarrow> fst (extract_user_data E r i g st) = v"
    by (simp add: extract_user_data_eq)
  have b: "generate_content E (length st) (extract_user_data_prompt r i g) = Inr text
       \<and> carries E text wrapping v \<longrightarrow>
      fst (extract_user_data E r i g st) = v"
    using carries_normalized [of E "length st" "extract_user_data_prompt r i g" "text" wrapping v] c
    by blast
  have d: "json_loads E (clean_json_output (reply E (length st) (identify_topics_prompt E user_data))) = Some v
      \<longrightarrow> fst (identify_topics E user_data st) = v"
    by (simp add: identify_topics_eq)
  have f: "json_loads E (clean_json_output (reply E (length st) (classify_persona_prompt E user_data))) = Some v
      \<longrightarrow> fst (classify_persona E user_data st) =
            (if is_dict v
             then (get_or v ''persona'' (JStr []), get_or v ''justification'' (JStr []))
             else (JStr [], JStr []))"
    by (cases v) (simp_all add: classify_persona_eq is_dict_def get_or_def field_def)
  define n where "n = length st"
  define p1 where "p1 = plan_roadmap_think_prompt E user_data persona"
  define topics where "topics =
    (case json_loads E (clean_json_output (reply E n p1)) of Some v \<Rightarrow> v | None \<Rightarrow> JArr [])"
  define p2 where "p2 = plan_roadmap_plan_prompt E topics"
  define s where "s =
    (case json_loads E (clean_json_output (reply E (n + 1) p2)) of Some v \<Rightarrow> v | None \<Rightarrow> JObj [])"
  define p3 where "p3 = plan_roadmap_activities_prompt E user_data persona s"
  define act where "act =
    (case json_loads E (clean_json_output (reply E (n + 2) p3)) of Some v \<Rightarrow> v | None \<Rightarrow> JObj [])"
  have run: "plan_roadmap E user_data persona st =
      (assemble user_data persona s act, st @ [p1, p2, p3])"
    unfolding plan_roadmap_run Let_def n_def p1_def topics_def p2_def s_def p3_def act_def
    by (rule refl)
  have nth: "(st @ [p1, p2, p3]) ! n = p1" "(st @ [p1, p2, p3]) ! (n + 1) = p2"
    "(st @ [p1, p2, p3]) ! (n + 2) = p3"
    unfolding n_def by (rule nth_sent)+
  have e: "let sent = snd (plan_roadmap E user_data persona st);
            result = fst (plan_roadmap E user_data persona st);
            n = length st;
            o1 = reply E n (sent ! n);
            o2 = reply E (n + 1) (sent ! (n + 1));
            o3 = reply E (n + 2) (sent ! (n + 2))
        in (json_loads E (clean_json_output o1) = Some v \<longrightarrow>
              sent ! (n + 1) = plan_roadmap_plan_prompt E v)
           \<and> (json_loads E (clean_json_output o2) = Some v \<longrightarrow>
                 sent ! (n + 2) = plan_roadmap_activities_prompt E user_data persona v
                 \<and> (\<forall>rd. result = Inr rd \<longrightarrow>
                       roadmap_field ''duration_days'' rd =
                         Some (get_or v ''duration_days'' (JInt 30))))
           \<and> (json_loads E (clean_json_output o3) = Some v \<longrightarrow>
                 (\<forall>rd. result = Inr rd \<longrightarrow>
                    roadmap_field ''total_estimated_hours'' rd =
                      Some (get_or v ''total_estimated_hours'' (JInt 0))
                    \<and> roadmap_field ''levels'' rd = Some (get_or v ''levels'' (JArr []))))"
    unfolding Let_def run fst_conv snd_conv n_def [symmetric] nth
  proof (intro conjI impI allI)
    show "p2 = plan_roadmap_plan_prompt E v"
      if "json_loads E (clean_json_output (reply E n p1)) = Some v"
      using that by (simp add: p2_def topics_def)
    show "p3 = plan_roadmap_activities_prompt E user_data persona v"
      if "json_loads E (clean_json_output (reply E (n + 1) p2)) = Some v"
      using that by (simp add: p3_def s_def)
    show "roadmap_field ''duration_days'' rd = Some (get_or v ''duration_days'' (JInt 30))"
      if "json_loads E (clean_json_output (reply E (n + 1) p2)) = Some v"
        and "assemble user_data persona s act = Inr rd" for rd
      using assemble_Inr_fields(1) [OF that(2)] that(1) by (simp add: s_def get_or_def)
    show "roadmap_field ''total_estimated_hours'' rd =
        Some (get_or v ''total_estimated_hours'' (JInt 0))"
      if "json_loads E (clean_json_output (reply E (n + 2) p3)) = Some v"
        and "assemble user_data persona s act = Inr rd" for rd
      using assemble_Inr_fields(2) [OF that(2)] that(1) by (simp add: act_def get_or_def)
    show "roadmap_field ''levels'' rd = Some (get_or v ''levels'' (JArr []))"
      if "json_loads E (clean_json_output (reply E (n + 2) p3)) = Some v"
        and "assemble user_data persona s act = Inr rd" for rd
      using assemble_Inr_fields(3) [OF that(2)] that(1) by (simp add: act_def get_or_def)
  qed
  from a b c d e f show ?thesis by (intro conjI)
qed

theorem parse_success_results_witness:
  "fst (extract_user_data (env_scripted [response_profile]) ''resume'' ''interview'' ''goals'' []) =
     JObj [(''domain'', JStr ''backend''), (''goals'', JArr [JStr ''integrate GenAI'']),
           (''weekly_availability_hours'', JInt 8)]
   \<and> fst (classify_persona (env_scripted [response_persona_only]) (JObj []) []) =
     (JStr ''College student'', JStr [])"
proof -
  let ?E1 = "env_scripted [response_profile]"
  let ?E2 = "env_scripted [response_persona_only]"
  let ?v1 = "JObj [(''domain'', JStr ''backend''), (''goals'', JArr [JStr ''integrate GenAI'']),
           (''weekly_availability_hours'', JInt 8)]"
  let ?v2 = "JObj [(''persona'', JStr ''College student'')]"
  have g1: "generate_content ?E1 (length ([] :: sent)) (extract_user_data_prompt ''resume'' ''interview'' ''goals'')
      = Inr response_profile"
    by (simp add: env_scripted_def)
  have "loads_ref (strip response_profile_inner) = Some ?v1"
    by code_simp
  then have c1: "carries ?E1 response_profile (Some ([], ''json'', response_profile_inner, [])) ?v1"
    by (simp add: carries_def json_loads_scripted response_profile_def response_profile_inner_def
        is_letter_def)
  have g2: "generate_content ?E2 (length ([] :: sent)) (classify_persona_prompt ?E2 (JObj []))
      = Inr response_persona_only"
    by (simp add: env_scripted_def)
  have "loads_ref (strip response_persona_only) = Some ?v2"
    by code_simp
  moreover have "\<not> startswith (strip response_persona_only) ''```''"
    by code_simp
  ultimately have c2: "carries ?E2 response_persona_only None ?v2"
    by (simp add: carries_def json_loads_scripted)
  note T1 = parse_success_results [of ?E1 "length ([] :: sent)"
      "extract_user_data_prompt ''resume'' ''interview'' ''goals''" response_profile
      "Some ([], ''json'', response_profile_inner, [])" ?v1 "[]" "''resume''" "''interview''"
      "''goals''" "JObj []" "JStr []"]
  note T2 = parse_success_results [of ?E2 "length ([] :: sent)"
      "classify_persona_prompt ?E2 (JObj [])" response_persona_only None ?v2 "[]" "''resume''"
      "''interview''" "''goals''" "JObj []" "JStr []"]
  from T1 [THEN conjunct2, THEN conjunct1] g1 c1
  have r1: "fst (extract_user_data ?E1 ''resume'' ''interview'' ''goals'' []) = ?v1"
    by blast
  from T2 [THEN conjunct1] g2 c2
  have "json_loads ?E2 (clean_json_output (reply ?E2 (length ([] :: sent))
      (classify_persona_prompt ?E2 (JObj [])))) = Some ?v2"
    by blast
  with T2 [THEN conjunct2, THEN conjunct2, THEN conjunct2, THEN conjunct2, THEN conjunct2]
  have r2: "fst (classify_persona ?E2 (JObj []) []) = (JStr ''College student'', JStr [])"
    by (simp add: is_dict_def get_or_def field_def)
  from r1 r2 show ?thesis by simp
qed

text \<open>
  Claim C4 as stated fails for \<open>classify_persona\<close>: the two responses carry different
  JSON values, an empty list and an empty dictionary, both well formed, and the stage
  returns the same result for both, the pair of empty strings it also returns when the
  parse fails.
\<close>

theorem classify_persona_counterexample:
  "json_loads (env_scripted [''[]''])
      (clean_json_output (reply (env_scripted [''[]'']) 0
         (classify_persona_prompt (env_scripted [''[]'']) (JObj [])))) = Some (JArr [])
   \<and> json_loads (env_scripted [''{}''])
      (clean_json_output (reply (env_scripted [''{}'']) 0
         (classify_persona_prompt (env_scripted [''{}'']) (JObj [])))) = Some (JObj [])
   \<and> fst (classify_persona (env_scripted [''[]'']) (JObj []) []) = (JStr [], JStr [])
   \<and> fst (classify_persona (env_scripted [''{}'']) (JObj []) []) = (JStr [], JStr [])"
proof -
  have l: "loads_ref (clean_json_output ''[]'') = Some (JArr [])"
    "loads_ref (clean_json_output ''{}'') = Some (JObj [])"
    by code_simp+
  have s: "strip ''[]'' = ''[]''" "strip ''{}'' = ''{}''"
    by (simp_all add: strip_def lstrip_def rstrip_def is_space_def)
  show ?thesis
    by (simp add: classify_persona_eq reply_scripted json_loads_scripted s l)
qed

text \<open>
  Claim C10. When the response to \<open>classify_persona\<close> parses as a dictionary that lacks
  the key persona, the first component of the result is the empty string, and likewise
  the second for the key justification: the value a failed parse gives. A response that
  parses as a dictionary with neither key and a response that does not parse give the
  same result, so the caller cannot tell them apart.
\<close>

theorem classify_persona_missing_keys:
  "(json_loads E (clean_json_output (reply E (length st) (classify_persona_prompt E user_data)))
        = Some (JObj kvs) \<longrightarrow>
      (map_of kvs ''persona'' = None \<longrightarrow> fst (fst (classify_persona E user_data st)) = JStr [])
      \<and> (map_of kvs ''justification'' = None \<longrightarrow>
            snd (fst (classify_persona E user_data st)) = JStr []))
   \<and> (json_loads E (clean_json_output (reply E (length st) (classify_persona_prompt E user_data)))
        = None \<longrightarrow>
      fst (classify_persona E user_data st) = (JStr [], JStr []))
   \<and> (json_loads E (clean_json_output (reply E (length st) (classify_persona_prompt E user_data)))
        = Some (JObj kvs)
       \<and> map_of kvs ''persona'' = None \<and> map_of kvs ''justification'' = None
       \<and> json_loads E' (clean_json_output
            (reply E' (length st') (classify_persona_prompt E' user_data'))) = None \<longrightarrow>
      fst (classify_persona E user_data st) = fst (classify_persona E' user_data' st'))"
  by (simp add: classify_persona_eq)

theorem classify_persona_missing_keys_witness:
  "snd (fst (classify_persona (env_scripted [response_persona_only]) (JObj []) [])) = JStr []
   \<and> fst (classify_persona env_refusing (JObj []) []) = (JStr [], JStr [])
   \<and> fst (classify_persona (env_scripted [''{}'']) (JObj []) []) =
       fst (classify_persona env_refusing (JObj []) [])"
proof -
  let ?E1 = "env_scripted [response_persona_only]"
  let ?E2 = "env_scripted [''{}'']"
  have a: "json_loads ?E1 (clean_json_output (reply ?E1 (length ([] :: sent))
      (classify_persona_prompt ?E1 (JObj [])))) = Some (JObj [(''persona'', JStr ''College student'')])"
  proof -
    have "loads_ref (clean_json_output (strip response_persona_only)) =
        Some (JObj [(''persona'', JStr ''College student'')])"
      by code_simp
    then show ?thesis
      by (simp add: reply_scripted json_loads_scripted)
  qed
  have b: "json_loads ?E2 (clean_json_output (reply ?E2 (length ([] :: sent))
      (classify_persona_prompt ?E2 (JObj [])))) = Some (JObj [])"
  proof -
    have "loads_ref (clean_json_output (strip ''{}'')) = Some (JObj [])"
      by code_simp
    then show ?thesis
      by (simp add: reply_scripted json_loads_scripted)
  qed
  have c: "json_loads env_refusing (clean_json_output (reply env_refusing (length ([] :: sent))
      (classify_persona_prompt env_refusing (JObj [])))) = None"
  proof -
    have "loads_ref (clean_json_output (strip ''I am sorry, I cannot help with that.'')) = None"
      by code_simp
    then show ?thesis
      by (simp add: env_refusing_def reply_def)
  qed
  from classify_persona_missing_keys [of ?E1 "[]" "JObj []" "[(''persona'', JStr ''College student'')]"
      env_refusing "[]" "JObj []"]
    classify_persona_missing_keys [of ?E2 "[]" "JObj []" "[]" env_refusing "[]" "JObj []"]
    classify_persona_missing_keys [of env_refusing "[]" "JObj []" "[]" env_refusing "[]" "JObj []"]
  show ?thesis
    using a b c by (simp add: prod_eq_iff)
qed

section \<open>The formatter\<close>

lemma not_isl_and_then:
  "\<not> isl m \<Longrightarrow> (\<And>x. \<not> isl (f x)) \<Longrightarrow> \<not> isl (and_then m f)"
  by (cases m) (simp_all add: and_then_def)

lemma py_get_dict: "is_dict v \<Longrightarrow> \<not> isl (py_get v k d)"
  by (cases v) (simp_all add: py_get_def is_dict_def)

lemma py_get_JObj:
  "py_get (JObj kvs) k d = Inr (case map_of kvs k of Some v \<Rightarrow> v | None \<Rightarrow> d)"
  by (simp add: py_get_def)

lemma and_then_Inr: "and_then (Inr x) f = f x"
  by (simp add: and_then_def)

lemma format_topics_total: "list_all is_dict ts \<Longrightarrow> \<not> isl (format_topics ts)"
proof (induction ts)
  case Nil
  then show ?case by simp
next
  case (Cons t ts)
  then obtain kvs where t: "t = JObj kvs"
    by (cases t) (simp_all add: is_dict_def)
  from Cons have "\<not> isl (format_topics ts)" by simp
  then show ?case
    by (simp add: t py_get_JObj and_then_Inr not_isl_and_then)
qed

lemma wf_level_topics:
  assumes "wf_level (JObj kvs)"
  shows "\<exists>ts. py_iter (case map_of kvs ''topics'' of Some v \<Rightarrow> v | None \<Rightarrow> JArr []) = Inr ts
    \<and> list_all is_dict ts"
  using assms by (auto simp: wf_level_def py_iter_def split: option.splits json.splits)

lemma format_levels_total: "list_all wf_level ls \<Longrightarrow> \<not> isl (format_levels ls)"
proof (induction ls)
  case Nil
  then show ?case by simp
next
  case (Cons l ls)
  then have wl: "wf_level l" and rest: "\<not> isl (format_levels ls)" by simp_all
  from wl obtain kvs where l: "l = JObj kvs"
    by (cases l) (simp_all add: wf_level_def)
  from wl l obtain ts
    where ts: "py_iter (case map_of kvs ''topics'' of Some v \<Rightarrow> v | None \<Rightarrow> JArr []) = Inr ts"
      and dicts: "list_all is_dict ts"
    using wf_level_topics by blast
  from dicts have "\<not> isl (format_topics ts)" by (rule format_topics_total)
  with rest show ?case
    by (simp add: l py_get_JObj and_then_Inr ts not_isl_and_then)
qed

lemma wf_roadmap_levels:
  assumes "wf_roadmap (JObj kvs)"
  shows "\<exists>ls. py_iter (case map_of kvs ''levels'' of Some v \<Rightarrow> v | None \<Rightarrow> JArr []) = Inr ls
    \<and> list_all wf_level ls"
  using assms by (auto simp: wf_roadmap_def py_iter_def split: option.splits json.splits)

lemma wf_roadmap_data_roadmap:
  assumes "wf_roadmap_data rd"
  shows "\<exists>kvs. py_get rd ''roadmap'' (JObj []) = Inr (JObj kvs) \<and> wf_roadmap (JObj kvs)"
proof -
  from assms obtain top where rd: "rd = JObj top"
    by (cases rd) (simp_all add: wf_roadmap_data_def)
  show ?thesis
  proof (cases "map_of top ''roadmap''")
    case None
    then show ?thesis by (simp add: rd py_get_JObj wf_roadmap_def)
  next
    case (Some r)
    with assms rd have w: "wf_roadmap r" by (simp add: wf_roadmap_data_def)
    then obtain kvs where "r = JObj kvs" by (cases r) (simp_all add: wf_roadmap_def)
    with Some w show ?thesis by (simp add: rd py_get_JObj)
  qed
qed

lemma format_table_total:
  assumes "wf_roadmap_data rd"
  shows "\<not> isl (format_table rd)"
proof -
  from assms obtain kvs
    where r: "py_get rd ''roadmap'' (JObj []) = Inr (JObj kvs)" and w: "wf_roadmap (JObj kvs)"
    using wf_roadmap_data_roadmap by blast
  from w obtain ls
    where ls: "py_iter (case map_of kvs ''levels'' of Some v \<Rightarrow> v | None \<Rightarrow> JArr []) = Inr ls"
      and wl: "list_all wf_level ls"
    using wf_roadmap_levels by blast
  from wl have "\<not> isl (format_levels ls)" by (rule format_levels_total)
  then show ?thesis
    by (simp add: format_table_def r py_get_JObj and_then_Inr ls not_isl_and_then)
qed

lemma get_or_JObj:
  "get_or (JObj kvs) k d = (case map_of kvs k of Some v \<Rightarrow> v | None \<Rightarrow> d)"
  by (simp add: get_or_def field_def)

lemma render_topic_JObj:
  "render_topic (JObj kvs) =
     [''- Topic: '' @ py_str (case map_of kvs ''topic'' of Some v \<Rightarrow> v | None \<Rightarrow> JStr []),
      ''  Activity: '' @ py_str (case map_of kvs ''activity'' of Some v \<Rightarrow> v | None \<Rightarrow> JStr []),
      ''  Est. Hours: ''
        @ py_str (case map_of kvs ''estimated_hours'' of Some v \<Rightarrow> v | None \<Rightarrow> JInt 0),
      ''  Justification: ''
        @ py_str (case map_of kvs ''justification'' of Some v \<Rightarrow> v | None \<Rightarrow> JStr [])
        @ ''\<newline>'']"
  by (simp add: render_topic_def get_or_JObj)

lemma render_level_JObj:
  "render_level (JObj kvs) =
     [''\<newline>Level '' @ py_str (case map_of kvs ''level'' of Some v \<Rightarrow> v | None \<Rightarrow> JStr ''?'')
        @ '': '' @ py_str (case map_of kvs ''title'' of Some v \<Rightarrow> v | None \<Rightarrow> JStr [])
        @ '' (Est. ''
        @ py_str (case map_of kvs ''estimated_hours'' of Some v \<Rightarrow> v | None \<Rightarrow> JInt 0)
        @ '' hrs)'',
      replicate 60 (CHR ''-'')]
     @ concat (map render_topic
         (elems (case map_of kvs ''topics'' of Some v \<Rightarrow> v | None \<Rightarrow> JArr [])))"
  by (simp add: render_level_def get_or_JObj)

lemma format_topics_render:
  "list_all is_dict ts \<Longrightarrow> format_topics ts = Inr (concat (map render_topic ts))"
proof (induction ts)
  case Nil
  then show ?case by simp
next
  case (Cons t ts)
  then obtain kvs where t: "t = JObj kvs"
    by (cases t) (simp_all add: is_dict_def)
  from Cons have "format_topics ts = Inr (concat (map render_topic ts))" by simp
  then show ?case
    by (simp add: t py_get_JObj and_then_Inr render_topic_JObj)
qed

lemma format_levels_render:
  "list_all wf_level ls \<Longrightarrow> format_levels ls = Inr (concat (map render_level ls))"
proof (induction ls)
  case Nil
  then show ?case by simp
next
  case (Cons l ls)
  then have wl: "wf_level l"
    and rest: "format_levels ls = Inr (concat (map render_level ls))" by simp_all
  from wl obtain kvs where l: "l = JObj kvs"
    by (cases l) (simp_all add: wf_level_def)
  let ?topics = "case map_of kvs ''topics'' of Some v \<Rightarrow> v | None \<Rightarrow> JArr []"
  from wl l have it: "py_iter ?topics = Inr (elems ?topics)"
    and dicts: "list_all is_dict (elems ?topics)"
    by (auto simp: wf_level_def py_iter_def elems_def split: option.splits json.splits)
  from dicts have "format_topics (elems ?topics) = Inr (concat (map render_topic (elems ?topics)))"
    by (rule format_topics_render)
  with rest it show ?case
    by (simp add: l py_get_JObj and_then_Inr render_level_JObj)
qed

lemma format_table_render:
  assumes "wf_roadmap_data rd"
  shows "format_table rd = Inr (render_table rd)"
proof -
  from assms obtain top where rd: "rd = JObj top"
    by (cases rd) (simp_all add: wf_roadmap_data_def)
  from assms obtain kvs
    where r: "py_get rd ''roadmap'' (JObj []) = Inr (JObj kvs)" and w: "wf_roadmap (JObj kvs)"
    using wf_roadmap_data_roadmap by blast
  from r rd have g: "get_or rd ''roadmap'' (JObj []) = JObj kvs"
    by (simp add: py_get_JObj get_or_JObj)
  let ?levels = "case map_of kvs ''levels'' of Some v \<Rightarrow> v | None \<Rightarrow> JArr []"
  from w have it: "py_iter ?levels = Inr (elems ?levels)"
    and wl: "list_all wf_level (elems ?levels)"
    by (auto simp: wf_roadmap_def py_iter_def elems_def split: option.splits json.splits)
  from wl have "format_levels (elems ?levels) = Inr (concat (map render_level (elems ?levels)))"
    by (rule format_levels_render)
  with it show ?thesis
    by (simp add: format_table_def r py_get_JObj and_then_Inr render_table_def g get_or_JObj
        Let_def)
qed

text \<open>
  Claim C8, as amended. \<open>format_table\<close> is a function of the record alone. On every roadmap
  record, whichever of its fields are missing, it returns a text and does not raise, and
  the text is \<open>render_table\<close> of the record: each field is rendered by its value when
  the key is present and by its default when the key is missing (the last two parts say
  so of \<open>get_or\<close>). The default of the title is \<^verbatim>\<open>GenAI Roadmap\<close> and that of the level
  number is \<^verbatim>\<open>?\<close>; every other text field has the default empty string, every number
  the default 0, and a missing list of levels or of topics is rendered as no level and
  no topic. The third to fifth parts show the record, the level and the topic with every
  field missing.
\<close>

theorem format_table_defaults:
  "(wf_roadmap_data rd \<longrightarrow> format_table rd = Inr (render_table rd))
   \<and> (wf_roadmap_data rd \<longrightarrow> \<not> isl (format_table rd))
   \<and> format_table (JObj []) =
       Inr (py_join ''\<newline>''
         [''\<newline>'' @ replicate 60 (CHR ''=''),
          ''GenAI Roadmap'',
          ''Duration: 0 days | Total Hours: 0'',
          replicate 60 (CHR ''=''),
          replicate 60 (CHR ''='') @ ''\<newline>''])
   \<and> format_levels [JObj []] =
       Inr [''\<newline>Level ?:  (Est. 0 hrs)'', replicate 60 (CHR ''-'')]
   \<and> format_topics [JObj []] =
       Inr [''- Topic: '', ''  Activity: '', ''  Est. Hours: 0'', ''  Justification: \<newline>'']
   \<and> (field k d = None \<longrightarrow> get_or d k dflt = dflt)
   \<and> (field k d = Some x \<longrightarrow> get_or d k dflt = x)"
proof (intro conjI)
  show "wf_roadmap_data rd \<longrightarrow> format_table rd = Inr (render_table rd)"
    using format_table_render by blast
  show "wf_roadmap_data rd \<longrightarrow> \<not> isl (format_table rd)"
    using format_table_total by blast
  show "format_table (JObj []) =
       Inr (py_join ''\<newline>''
         [''\<newline>'' @ replicate 60 (CHR ''=''),
          ''GenAI Roadmap'',
          ''Duration: 0 days | Total Hours: 0'',
          replicate 60 (CHR ''=''),
          replicate 60 (CHR ''='') @ ''\<newline>''])"
    by (simp add: format_table_def py_get_JObj and_then_Inr py_iter_def py_str_0 py_str_JStr)
  show "format_levels [JObj []] =
       Inr [''\<newline>Level ?:  (Est. 0 hrs)'', replicate 60 (CHR ''-'')]"
    by (simp add: py_get_JObj and_then_Inr py_iter_def py_str_0 py_str_JStr)
  show "format_topics [JObj []] =
       Inr [''- Topic: '', ''  Activity: '', ''  Est. Hours: 0'', ''  Justification: \<newline>'']"
    by (simp add: py_get_JObj and_then_Inr py_str_0 py_str_JStr)
  show "field k d = None \<longrightarrow> get_or d k dflt = dflt"
    by (simp add: get_or_def)
  show "field k d = Some x \<longrightarrow> get_or d k dflt = x"
    by (simp add: get_or_def)
qed

theorem format_table_defaults_witness:
  "format_table
     (JObj [(''roadmap'', JObj
        [(''duration_days'', JInt 45),
         (''levels'', JArr
            [JObj [(''title'', JStr ''Foundations''),
                   (''topics'', JArr [JObj [(''topic'', JStr ''Prompting'')]])]])])]) =
   Inr (py_join ''\<newline>''
     [''\<newline>'' @ replicate 60 (CHR ''=''),
      ''GenAI Roadmap'',
      ''Duration: 45 days | Total Hours: 0'',
      replicate 60 (CHR ''=''),
      ''\<newline>Level ?: Foundations (Est. 0 hrs)'',
      replicate 60 (CHR ''-''),
      ''- Topic: Prompting'',
      ''  Activity: '',
      ''  Est. Hours: 0'',
      ''  Justification: \<newline>'',
      replicate 60 (CHR ''='') @ ''\<newline>''])"
proof -
  let ?rd = "JObj [(''roadmap'', JObj
        [(''duration_days'', JInt 45),
         (''levels'', JArr
            [JObj [(''title'', JStr ''Foundations''),
                   (''topics'', JArr [JObj [(''topic'', JStr ''Prompting'')]])]])])]"
  have w: "wf_roadmap_data ?rd"
    by (simp add: wf_roadmap_data_def wf_roadmap_def wf_level_def is_dict_def)
  have p: "py_str (JInt 45) = ''45''"
    by code_simp
  have "render_table ?rd = py_join ''\<newline>''
     [''\<newline>'' @ replicate 60 (CHR ''=''),
      ''GenAI Roadmap'',
      ''Duration: 45 days | Total Hours: 0'',
      replicate 60 (CHR ''=''),
      ''\<newline>Level ?: Foundations (Est. 0 hrs)'',
      replicate 60 (CHR ''-''),
      ''- Topic: Prompting'',
      ''  Activity: '',
      ''  Est. Hours: 0'',
      ''  Justification: \<newline>'',
      replicate 60 (CHR ''='') @ ''\<newline>'']"
    by (simp add: render_table_def render_level_JObj render_topic_JObj get_or_JObj elems_def
        Let_def p py_str_0 py_str_JStr)
  with format_table_defaults [of ?rd] w show ?thesis
    by simp
qed

text \<open>
  Claim C8 as stated fails: in this record the title and the number of the only level
  are missing, and they are rendered as \<^verbatim>\<open>GenAI Roadmap\<close> and \<^verbatim>\<open>?\<close>, neither the
  empty string nor zero.
\<close>

theorem format_table_counterexample:
  "format_table (JObj [(''roadmap'', JObj [(''levels'', JArr [JObj []])])]) =
     Inr (py_join ''\<newline>''
       [''\<newline>'' @ replicate 60 (CHR ''=''),
        ''GenAI Roadmap'',
        ''Duration: 0 days | Total Hours: 0'',
        replicate 60 (CHR ''=''),
        ''\<newline>Level ?:  (Est. 0 hrs)'',
        replicate 60 (CHR ''-''),
        replicate 60 (CHR ''='') @ ''\<newline>''])"
  by (simp add: format_table_def py_get_JObj and_then_Inr py_iter_def py_str_0 py_str_JStr)

lemma format_table_raises:
  "format_table (JObj [(''roadmap'', JObj [(''levels'', JNull)])]) = Inl TypeError"
  "format_table (JObj [(''roadmap'', JObj [(''levels'', JArr [JStr ''Foundations''])])]) =
     Inl AttributeError"
  by (simp_all add: format_table_def py_get_def and_then_def py_iter_def)

section \<open>PDF generation\<close>

lemma pdf_topics_total: "list_all is_dict ts \<Longrightarrow> \<not> isl (pdf_topics H ts y)"
proof (induction ts arbitrary: y)
  case Nil
  then show ?case by simp
next
  case (Cons t ts)
  then obtain kvs where t: "t = JObj kvs"
    by (cases t) (simp_all add: is_dict_def)
  from Cons have "\<not> isl (pdf_topics H ts y')" for y' by simp
  then show ?case
    by (simp add: t py_get_JObj and_then_Inr not_isl_and_then Let_def split_beta)
qed

lemma pdf_levels_total: "list_all wf_level ls \<Longrightarrow> \<not> isl (pdf_levels H ls y)"
proof (induction ls arbitrary: y)
  case Nil
  then show ?case by simp
next
  case (Cons l ls)
  then have wl: "wf_level l" and rest: "\<not> isl (pdf_levels H ls y')" for y' by simp_all
  from wl obtain kvs where l: "l = JObj kvs"
    by (cases l) (simp_all add: wf_level_def)
  from wl l obtain ts
    where ts: "py_iter (case map_of kvs ''topics'' of Some v \<Rightarrow> v | None \<Rightarrow> JArr []) = Inr ts"
      and dicts: "list_all is_dict ts"
    using wf_level_topics by blast
  from dicts have "\<not> isl (pdf_topics H ts y')" for y' by (rule pdf_topics_total)
  with rest show ?case
    by (simp add: l py_get_JObj and_then_Inr ts not_isl_and_then Let_def split_beta)
qed

lemma generate_pdf_drawn:
  assumes avail: "REPORTLAB_AVAILABLE H" and wf: "wf_roadmap_data rd"
  shows "\<exists>ops. generate_pdf H rd path = (if canvas_save H path ops then Inr path else Inl OSError)"
proof -
  from wf obtain kvs
    where r: "py_get rd ''roadmap'' (JObj []) = Inr (JObj kvs)" and w: "wf_roadmap (JObj kvs)"
    using wf_roadmap_data_roadmap by blast
  from w obtain ls
    where ls: "py_iter (case map_of kvs ''levels'' of Some v \<Rightarrow> v | None \<Rightarrow> JArr []) = Inr ls"
      and wl: "list_all wf_level ls"
    using wf_roadmap_levels by blast
  have "\<exists>y drawn. generate_pdf H rd path =
      and_then (pdf_levels H ls y) (\<lambda>res.
        if canvas_save H path (drawn res) then Inr path else Inl OSError)"
    using avail
    apply (simp add: generate_pdf_def r py_get_JObj and_then_Inr ls Let_def split_beta)
    apply (intro exI)
    apply (rule refl)
    done
  then obtain y drawn where g: "generate_pdf H rd path =
      and_then (pdf_levels H ls y) (\<lambda>res.
        if canvas_save H path (drawn res) then Inr path else Inl OSError)"
    by blast
  from wl have "\<not> isl (pdf_levels H ls y)" by (rule pdf_levels_total)
  then obtain res where "pdf_levels H ls y = Inr res"
    by (cases "pdf_levels H ls y") simp_all
  with g have "generate_pdf H rd path =
      (if canvas_save H path (drawn res) then Inr path else Inl OSError)"
    by (simp add: and_then_Inr)
  then show ?thesis by (rule exI)
qed

text \<open>
  Claim C9, as amended. When the rendering backend is unavailable \<open>generate_pdf\<close> returns
  the empty string and does not raise. When it is available there is no \<^verbatim>\<open>try\<close>
  block: on a roadmap record the function returns the output path if the backend writes
  the file, and the backend's exception reaches the caller if it does not.
\<close>

theorem generate_pdf_outcomes:
  "(\<not> REPORTLAB_AVAILABLE H \<longrightarrow> generate_pdf H rd path = Inr [])
   \<and> (REPORTLAB_AVAILABLE H \<and> wf_roadmap_data rd \<and> (\<forall>ops. canvas_save H path ops) \<longrightarrow>
        generate_pdf H rd path = Inr path)
   \<and> (REPORTLAB_AVAILABLE H \<and> wf_roadmap_data rd \<and> (\<forall>ops. \<not> canvas_save H path ops) \<longrightarrow>
        generate_pdf H rd path = Inl OSError)"
proof (intro conjI impI)
  assume "\<not> REPORTLAB_AVAILABLE H"
  then show "generate_pdf H rd path = Inr []"
    by (simp add: generate_pdf_def)
next
  assume "REPORTLAB_AVAILABLE H \<and> wf_roadmap_data rd \<and> (\<forall>ops. canvas_save H path ops)"
  with generate_pdf_drawn [of H rd path] show "generate_pdf H rd path = Inr path"
    by auto
next
  assume "REPORTLAB_AVAILABLE H \<and> wf_roadmap_data rd \<and> (\<forall>ops. \<not> canvas_save H path ops)"
  with generate_pdf_drawn [of H rd path] show "generate_pdf H rd path = Inl OSError"
    by auto
qed

theorem generate_pdf_outcomes_witness:
  "generate_pdf host_plain (JObj []) ''roadmap.pdf'' = Inr []
   \<and> generate_pdf host_pdf
        (JObj [(''roadmap'', JObj [(''levels'', JArr [JObj [(''topics'', JArr [JObj []])]])])])
        ''roadmap.pdf'' = Inr ''roadmap.pdf''
   \<and> generate_pdf host_readonly (JObj []) ''/no/such/dir/roadmap.pdf'' = Inl OSError"
proof -
  have w: "wf_roadmap_data
      (JObj [(''roadmap'', JObj [(''levels'', JArr [JObj [(''topics'', JArr [JObj []])]])])])"
    "wf_roadmap_data (JObj [])"
    by (simp_all add: wf_roadmap_data_def wf_roadmap_def wf_level_def is_dict_def)
  have h: "\<not> REPORTLAB_AVAILABLE host_plain" "REPORTLAB_AVAILABLE host_pdf"
    "REPORTLAB_AVAILABLE host_readonly"
    "\<forall>ops. canvas_save host_pdf ''roadmap.pdf'' ops"
    "\<forall>ops. \<not> canvas_save host_readonly ''/no/such/dir/roadmap.pdf'' ops"
    by (simp_all add: host_plain_def host_pdf_def host_readonly_def)
  from generate_pdf_outcomes [of host_plain "JObj []" "''roadmap.pdf''"]
    generate_pdf_outcomes [of host_pdf
      "JObj [(''roadmap'', JObj [(''levels'', JArr [JObj [(''topics'', JArr [JObj []])]])])]"
      "''roadmap.pdf''"]
    generate_pdf_outcomes [of host_readonly "JObj []" "''/no/such/dir/roadmap.pdf''"]
  show ?thesis
    using w h by blast
qed

text \<open>
  Claim C9 as stated fails. The backend is available in both runs. In the first the
  record is the empty dictionary and the file cannot be written: the exception of
  \<^verbatim>\<open>c.save()\<close> reaches the caller. In the second the \<open>levels\<close> of the record is
  \<^verbatim>\<open>None\<close>: the \<^verbatim>\<open>for\<close> loop raises TypeError. Neither run returns the output path.
\<close>

theorem generate_pdf_counterexample:
  "REPORTLAB_AVAILABLE host_readonly
   \<and> generate_pdf host_readonly (JObj []) ''/no/such/dir/roadmap.pdf'' = Inl OSError
   \<and> REPORTLAB_AVAILABLE host_pdf
   \<and> generate_pdf host_pdf (JObj [(''roadmap'', JObj [(''levels'', JNull)])]) ''roadmap.pdf''
       = Inl TypeError"
  by (simp add: generate_pdf_def host_readonly_def host_pdf_def py_get_def and_then_def
      py_iter_def draw_wrapped_def Let_def)

section \<open>The whole pipeline\<close>

lemma assemble_dicts:
  "assemble (JObj u) persona (JObj s) (JObj a) =
     Inr (JObj
       [(''user_profile_summary'', JObj
           [(''persona'', persona),
            (''domain'', case map_of u ''domain'' of Some v \<Rightarrow> v | None \<Rightarrow> JStr []),
            (''goals'', case map_of u ''goals'' of Some v \<Rightarrow> v | None \<Rightarrow> JArr []),
            (''weekly_availability_hours'',
               case map_of u ''weekly_availability_hours'' of Some v \<Rightarrow> v | None \<Rightarrow> JInt 0)]),
        (''roadmap'', JObj
           [(''title'', JStr (''Personalized GenAI Roadmap for '' @ py_str persona)),
            (''duration_days'', case map_of s ''duration_days'' of Some v \<Rightarrow> v | None \<Rightarrow> JInt 30),
            (''total_estimated_hours'',
               case map_of a ''total_estimated_hours'' of Some v \<Rightarrow> v | None \<Rightarrow> JInt 0),
            (''levels'', case map_of a ''levels'' of Some v \<Rightarrow> v | None \<Rightarrow> JArr [])])])"
  by (simp add: assemble_def py_get_JObj and_then_Inr)

lemma generate_roadmap_values:
  "fst (generate_roadmap E H r i g False st) =
     (case pipeline_values E r i g st of
        (user_data, persona, topics, structure, activities) \<Rightarrow>
          and_then (assemble user_data persona structure activities) (\<lambda>roadmap_data.
          and_then (format_table roadmap_data) (\<lambda>roadmap_table.
            Inr (roadmap_data, roadmap_table, None))))"
  by (simp add: generate_roadmap_def pipeline_values_def plan_roadmap_stages Let_def split_beta)

text \<open>
  Claim C5. In a run of the pipeline (without PDF) on any resume, interview summary and
  goals, let the profile be a dictionary, the structure a dictionary whose
  \<open>duration_days\<close> is 21, 30 or 45, and the activities a dictionary whose \<open>levels\<close> is a
  list of at least one level, as the prompts request. These are the values the stages
  parsed from the model responses: the empty defaults of a failed parse have neither a
  \<open>duration_days\<close> nor a \<open>levels\<close>. Then the pipeline returns a roadmap record and its
  table; the \<open>duration_days\<close> of the record is 21, 30 or 45 and its \<open>levels\<close> is a list
  that is not empty. Nothing is asked of the persona and topics responses.
\<close>

theorem pipeline_on_requested_shape:
  "(case pipeline_values E resume_text interview_summary_text goals_text st of
      (user_data, persona, topics, structure, activities) \<Rightarrow>
        is_dict user_data \<and> structure_shape structure \<and> activities_shape activities)
   \<longrightarrow>
   (\<exists>rd table ls.
      fst (generate_roadmap E H resume_text interview_summary_text goals_text False st) =
        Inr (rd, table, None)
      \<and> roadmap_field ''duration_days'' rd \<in> {Some (JInt 21), Some (JInt 30), Some (JInt 45)}
      \<and> roadmap_field ''levels'' rd = Some (JArr ls)
      \<and> ls \<noteq> [])"
proof
  let ?v = "pipeline_values E resume_text interview_summary_text goals_text st"
  assume h: "case ?v of
      (user_data, persona, topics, structure, activities) \<Rightarrow>
        is_dict user_data \<and> structure_shape structure \<and> activities_shape activities"
  obtain user_data persona topics struct activities
    where v: "?v = (user_data, persona, topics, struct, activities)"
    by (cases ?v) blast
  from h v have "is_dict user_data" and ss: "structure_shape struct"
    and sa: "activities_shape activities"
    by simp_all
  then obtain u where u: "user_data = JObj u"
    by (cases user_data) (simp_all add: is_dict_def)
  from ss obtain s where s: "struct = JObj s"
    and d: "map_of s ''duration_days'' \<in> {Some (JInt 21), Some (JInt 30), Some (JInt 45)}"
    by (cases struct) (simp_all add: structure_shape_def)
  from sa obtain a where a: "activities = JObj a"
    by (cases activities) (simp_all add: activities_shape_def)
  from sa a obtain ls where l: "map_of a ''levels'' = Some (JArr ls)"
    and ne: "ls \<noteq> []" and wl: "list_all wf_level ls"
    by (auto simp: activities_shape_def split: option.splits json.splits)
  let ?rd = "JObj
       [(''user_profile_summary'', JObj
           [(''persona'', persona),
            (''domain'', case map_of u ''domain'' of Some v \<Rightarrow> v | None \<Rightarrow> JStr []),
            (''goals'', case map_of u ''goals'' of Some v \<Rightarrow> v | None \<Rightarrow> JArr []),
            (''weekly_availability_hours'',
               case map_of u ''weekly_availability_hours'' of Some v \<Rightarrow> v | None \<Rightarrow> JInt 0)]),
        (''roadmap'', JObj
           [(''title'', JStr (''Personalized GenAI Roadmap for '' @ py_str persona)),
            (''duration_days'', case map_of s ''duration_days'' of Some v \<Rightarrow> v | None \<Rightarrow> JInt 30),
            (''total_estimated_hours'',
               case map_of a ''total_estimated_hours'' of Some v \<Rightarrow> v | None \<Rightarrow> JInt 0),
            (''levels'', JArr ls)])]"
  have asm: "assemble user_data persona struct activities = Inr ?rd"
    by (simp add: u s a assemble_dicts l)
  have "wf_roadmap_data ?rd"
    using wl by (simp add: wf_roadmap_data_def wf_roadmap_def)
  then have "\<not> isl (format_table ?rd)"
    by (rule format_table_total)
  then obtain table where t: "format_table ?rd = Inr table"
    by (cases "format_table ?rd") simp_all
  have run: "fst (generate_roadmap E H resume_text interview_summary_text goals_text False st) =
      Inr (?rd, table, None)"
    by (simp only: generate_roadmap_values v prod.case asm and_then_Inr t)
  have f1: "roadmap_field ''duration_days'' ?rd \<in> {Some (JInt 21), Some (JInt 30), Some (JInt 45)}"
    using d by (auto simp: roadmap_field_def field_def)
  have f2: "roadmap_field ''levels'' ?rd = Some (JArr ls)"
    by (simp add: roadmap_field_def field_def)
  from run f1 f2 ne
  show "\<exists>rd table ls.
      fst (generate_roadmap E H resume_text interview_summary_text goals_text False st) =
        Inr (rd, table, None)
      \<and> roadmap_field ''duration_days'' rd \<in> {Some (JInt 21), Some (JInt 30), Some (JInt 45)}
      \<and> roadmap_field ''levels'' rd = Some (JArr ls)
      \<and> ls \<noteq> []"
    by blast
qed

theorem pipeline_on_requested_shape_witness:
  "\<exists>rd table ls.
      fst (generate_roadmap
             (env_scripted [response_profile, response_persona, response_topics,
                response_structure, response_activities])
             host_plain ''5 years backend, Python advanced'' ''prefers hands-on, 8 hrs/week''
             ''integrate GenAI into workflow'' False []) =
        Inr (rd, table, None)
      \<and> roadmap_field ''duration_days'' rd \<in> {Some (JInt 21), Some (JInt 30), Some (JInt 45)}
      \<and> roadmap_field ''levels'' rd = Some (JArr ls)
      \<and> ls \<noteq> []"
proof -
  let ?E = "env_scripted [response_profile, response_persona, response_topics,
                response_structure, response_activities]"
  let ?profile = "JObj [(''domain'', JStr ''backend''), (''goals'', JArr [JStr ''integrate GenAI'']),
      (''weekly_availability_hours'', JInt 8)]"
  let ?persona = "JObj [(''persona'', JStr ''Working professional (tech)''),
      (''justification'', JStr ''5 years of backend work'')]"
  let ?topics = "JArr [JObj [(''topic'', JStr ''Prompt engineering''),
      (''justification'', JStr ''hands-on'')]]"
  let ?structure = "JObj [(''duration_days'', JInt 30),
      (''levels'', JArr [JObj [(''level'', JInt 1), (''title'', JStr ''Foundations''),
         (''topics'', JArr [JStr ''Prompt engineering'']), (''justification'', JStr ''start'')]]),
      (''structure_justification'', JStr ''8 hours a week'')]"
  let ?activities = "JObj [(''levels'', JArr [JObj [(''level'', JInt 1),
         (''title'', JStr ''Foundations''), (''estimated_hours'', JInt 8),
         (''topics'', JArr [JObj [(''topic'', JStr ''Prompt engineering''),
            (''activity'', JStr ''Build a prompt library''), (''estimated_hours'', JInt 8),
            (''justification'', JStr ''hands-on'')]])]]),
      (''total_estimated_hours'', JInt 8)]"
  have l1: "loads_ref (clean_json_output (strip response_profile)) = Some ?profile"
    by code_simp
  have l2: "loads_ref (clean_json_output (strip response_persona)) = Some ?persona"
    by code_simp
  have l3: "loads_ref (clean_json_output (strip response_topics)) = Some ?topics"
    by code_simp
  have l4: "loads_ref (clean_json_output (strip response_structure)) = Some ?structure"
    by code_simp
  have l5: "loads_ref (clean_json_output (strip response_activities)) = Some ?activities"
    by code_simp
  have pv: "pipeline_values ?E ''5 years backend, Python advanced'' ''prefers hands-on, 8 hrs/week''
      ''integrate GenAI into workflow'' [] =
      (?profile, JStr ''Working professional (tech)'', ?topics, ?structure, ?activities)"
    by (simp add: pipeline_values_def extract_user_data_eq classify_persona_eq think_stage_eq
        structure_stage_eq activities_stage_eq reply_scripted json_loads_scripted l1 l2 l3 l4 l5)
  have shapes: "is_dict ?profile" "structure_shape ?structure" "activities_shape ?activities"
    by (simp_all add: is_dict_def structure_shape_def activities_shape_def wf_level_def)
  from pipeline_on_requested_shape [of ?E "''5 years backend, Python advanced''"
      "''prefers hands-on, 8 hrs/week''" "''integrate GenAI into workflow''" "[]" host_plain]
  show ?thesis
    unfolding pv using shapes by simp
qed

end
